theory Spec2Isabelle
  imports Complex_Main
begin

section \<open>Family Game Night Hub: the round table, its timers and its persistence\<close>

text \<open>
  A shallow embedding of \<^verbatim>\<open>src/script.js\<close>. The script keeps its state in the page: the
  rows of the table body, the object \<^verbatim>\<open>timers\<close>, the counter \<^verbatim>\<open>nextRowId\<close>, the browser's
  \<^verbatim>\<open>localStorage\<close> and the intervals registered with \<^verbatim>\<open>setInterval\<close>. Here that state is
  a record, every function of the script is a function from state to state, and what a
  function does outside the page (a dialog, a scroll, a sound) is appended to a list of
  effects.

  What is outside the model:
  \<^item> numbers are exact integers (JavaScript has doubles: the model is the script for values
    below \<open>2^53\<close>, which print without an exponent);
  \<^item> the browser's HTML parser is a parameter (\<open>dom\<close> below): the script splices stored
    text into markup, and what text and markup the parser makes of a fragment is the
    browser's business. Markup that changes the structure of a row is not modelled;
  \<^item> white space is the ASCII white space; the white space inside the script's markup
    templates is shortened to single line breaks;
  \<^item> a stored snapshot is typed: its entries are \<^verbatim>\<open>null\<close> or objects with the eight
    fields at the types \<^verbatim>\<open>saveRoundsToStorage\<close> writes. Entries of other shapes run into
    JavaScript's dynamic coercions and are not modelled;
  \<^item> handlers are called with an integer row id, as the \<^verbatim>\<open>onclick\<close> attributes of the rows
    built by the script do; timeouts that only revert a style are left out.
\<close>

subsection \<open>JavaScript built-ins used by the script\<close>

definition isWhiteSpace :: "char \<Rightarrow> bool" where
  "isWhiteSpace c \<longleftrightarrow> c \<in> set [CHR 0x09, CHR 0x0A, CHR 0x0B, CHR 0x0C, CHR 0x0D, CHR 0x20]"

text \<open>\<^verbatim>\<open>String.prototype.trim\<close>.\<close>

definition trim :: "string \<Rightarrow> string" where
  "trim s = rev (dropWhile isWhiteSpace (rev (dropWhile isWhiteSpace s)))"

text \<open>\<^verbatim>\<open>str.replace(pat, rep)\<close> with a string pattern: the first occurrence only.\<close>

fun replaceFirst :: "string \<Rightarrow> string \<Rightarrow> string \<Rightarrow> string" where
  "replaceFirst pat rep [] = (if pat = [] then rep else [])"
| "replaceFirst pat rep (c # cs) =
     (if take (length pat) (c # cs) = pat then rep @ drop (length pat) (c # cs)
      else c # replaceFirst pat rep cs)"

text \<open>
  \<^verbatim>\<open>parseInt(str)\<close> with no radix: leading white space, an optional sign, an optional
  \<^verbatim>\<open>0x\<close> prefix, then the longest run of digits; \<open>None\<close> stands for \<^verbatim>\<open>NaN\<close>.
\<close>

definition digitValue :: "char \<Rightarrow> nat option" where
  "digitValue c =
     (let n = (of_char c :: nat) in
      if 48 \<le> n \<and> n \<le> 57 then Some (n - 48)
      else if 97 \<le> n \<and> n \<le> 122 then Some (n - 87)
      else if 65 \<le> n \<and> n \<le> 90 then Some (n - 55)
      else None)"

definition isDigitOf :: "nat \<Rightarrow> char \<Rightarrow> bool" where
  "isDigitOf radix c = (case digitValue c of None \<Rightarrow> False | Some d \<Rightarrow> d < radix)"

definition digitsValue :: "nat \<Rightarrow> string \<Rightarrow> nat" where
  "digitsValue radix z =
     foldl (\<lambda>acc c. acc * radix + (case digitValue c of None \<Rightarrow> 0 | Some d \<Rightarrow> d)) 0 z"

definition stripSign :: "string \<Rightarrow> bool \<times> string" where
  "stripSign s =
     (case s of
        [] \<Rightarrow> (False, [])
      | c # cs \<Rightarrow>
          if c = CHR ''-'' then (True, cs)
          else if c = CHR ''+'' then (False, cs)
          else (False, s))"

definition stripPrefix :: "string \<Rightarrow> nat \<times> string" where
  "stripPrefix s = (if take 2 s = ''0x'' \<or> take 2 s = ''0X'' then (16, drop 2 s) else (10, s))"

definition parseInt :: "string \<Rightarrow> int option" where
  "parseInt str =
     (case stripSign (dropWhile isWhiteSpace str) of (neg, s2) \<Rightarrow>
      case stripPrefix s2 of (radix, s3) \<Rightarrow>
        let z = takeWhile (isDigitOf radix) s3
        in if z = [] then None
           else Some ((if neg then - 1 else 1) * int (digitsValue radix z)))"

text \<open>\<^verbatim>\<open>x || 0\<close> on the result of \<^verbatim>\<open>parseInt\<close>: \<^verbatim>\<open>NaN\<close> and \<open>0\<close> give \<open>0\<close>.\<close>

definition orZero :: "int option \<Rightarrow> int" where
  "orZero v = (case v of None \<Rightarrow> 0 | Some n \<Rightarrow> n)"

text \<open>A number spliced into a template literal: its decimal digits.\<close>

definition digitChar :: "nat \<Rightarrow> char" where
  "digitChar d = ''0123456789'' ! d"

fun natToString :: "nat \<Rightarrow> string" where
  "natToString n =
     (if n < 10 then [digitChar n] else natToString (n div 10) @ [digitChar (n mod 10)])"

definition numberToString :: "int \<Rightarrow> string" where
  "numberToString n =
     (if n < 0 then CHR ''-'' # natToString (nat (- n)) else natToString (nat n))"

text \<open>\<^verbatim>\<open>a % b\<close>: the remainder takes the sign of the dividend.\<close>

definition jsRemainder :: "int \<Rightarrow> int \<Rightarrow> int" where
  "jsRemainder a b = sgn a * (\<bar>a\<bar> mod \<bar>b\<bar>)"

text \<open>\<^verbatim>\<open>str.padStart(2, '0')\<close>.\<close>

definition padStart2 :: "string \<Rightarrow> string" where
  "padStart2 s = replicate (2 - length s) CHR ''0'' @ s"

text \<open>
  The \<^verbatim>\<open>MM:SS\<close> text of \<^verbatim>\<open>updateTimerDisplay\<close> and \<^verbatim>\<open>updateGlobalTimerDisplay\<close>:
  \<^verbatim>\<open>Math.floor(seconds / 60)\<close> and \<^verbatim>\<open>seconds % 60\<close>, each padded to two characters.
\<close>

definition formatTime :: "int \<Rightarrow> string" where
  "formatTime seconds =
     padStart2 (numberToString (seconds div 60)) @ '':'' @
     padStart2 (numberToString (jsRemainder seconds 60))"

subsection \<open>Markup helpers of the script\<close>

definition dq :: string where
  "dq = [CHR 0x22]"

definition sq :: string where
  "sq = [CHR 0x27]"

definition nl :: string where
  "nl = [CHR 0x0A]"

definition escapeChar :: "char \<Rightarrow> string" where
  "escapeChar c =
     (if c = CHR ''&'' then ''&amp;''
      else if c = CHR ''<'' then ''&lt;''
      else if c = CHR ''>'' then ''&gt;''
      else if c = CHR 0x22 then ''&quot;''
      else if c = CHR 0x27 then ''&#39;''
      else [c])"

text \<open>\<^verbatim>\<open>escapeHtml\<close> on a string (the guard of its first line never fires on a string).\<close>

definition escapeHtml :: "string \<Rightarrow> string" where
  "escapeHtml str = concat (map escapeChar str)"

definition buildPromptHTML :: "string \<Rightarrow> bool \<Rightarrow> string" where
  "buildPromptHTML promptText visible =
     (let safe = escapeHtml promptText in
      if visible then
        nl @ ''<div class='' @ dq @ ''spoiler-container'' @ dq @ ''>'' @ nl @
        ''<button class='' @ dq @ ''btn btn-reveal'' @ dq @ '' onclick='' @ dq @
        ''toggleReveal(this)'' @ dq @ ''>Hide</button>'' @ nl @
        ''<div class='' @ dq @ dq @ ''>'' @ nl @ safe @ nl @ ''</div>'' @ nl @ ''</div>'' @ nl
      else
        nl @ ''<div class='' @ dq @ ''spoiler-container'' @ dq @ ''>'' @ nl @
        ''<button class='' @ dq @ ''btn btn-reveal'' @ dq @ '' onclick='' @ dq @
        ''toggleReveal(this)'' @ dq @ ''>Reveal</button>'' @ nl @
        ''<div class='' @ dq @ ''hidden'' @ dq @ ''>'' @ nl @ safe @ nl @ ''</div>'' @ nl @
        ''</div>'' @ nl)"

text \<open>
  The test \<^verbatim>\<open>/<\s*\w+[^>]*>/\<close> of \<^verbatim>\<open>loadRoundsFromStorage\<close>: somewhere a \<^verbatim>\<open><\<close>, white
  space, a word character, and a \<^verbatim>\<open>>\<close> later on.
\<close>

definition isWordChar :: "char \<Rightarrow> bool" where
  "isWordChar c =
     (let n = (of_char c :: nat) in
      (48 \<le> n \<and> n \<le> 57) \<or> (65 \<le> n \<and> n \<le> 90) \<or> (97 \<le> n \<and> n \<le> 122) \<or> n = 95)"

definition tagOpens :: "string \<Rightarrow> bool" where
  "tagOpens rest =
     (case dropWhile isWhiteSpace rest of
        [] \<Rightarrow> False
      | c # cs \<Rightarrow> isWordChar c \<and> CHR ''>'' \<in> set cs)"

fun looksLikeHTML :: "string \<Rightarrow> bool" where
  "looksLikeHTML [] = False"
| "looksLikeHTML (c # cs) = ((c = CHR ''<'' \<and> tagOpens cs) \<or> looksLikeHTML cs)"

text \<open>The default icon of a round, U+1F3AE, as its UTF-8 bytes.\<close>

definition defaultIcon :: string where
  "defaultIcon = [CHR 0xF0, CHR 0x9F, CHR 0x8E, CHR 0xAE]"

text \<open>The party popper of the progress text, U+1F389.\<close>

definition partyPopper :: string where
  "partyPopper = [CHR 0xF0, CHR 0x9F, CHR 0x8E, CHR 0x89]"

subsection \<open>The data model\<close>

text \<open>
  A row of the table, by what the script reads and writes of it: the \<^verbatim>\<open>data-row-id\<close>
  attribute, the text of the name cell and of the icon span (if there is one), the
  markup of the prompt and resource cells, the values of the two timer inputs (a number
  input holds a string), the checkbox, the classes of the row, and the text and classes
  of the timer display.
\<close>

datatype rowClass = Completed | Active | TimerFinished

datatype displayClass = Running | Warning | Danger | Finished

record row =
  data_row_id :: string
  game_name_text :: string
  game_icon_text :: "string option"
  round_prompt_html :: string
  resource_cell_html :: string
  timer_min_value :: string
  timer_sec_value :: string
  done_checkbox :: bool
  row_classes :: "rowClass set"
  timer_display_text :: string
  timer_display_classes :: "displayClass set"

text \<open>An entry of \<^verbatim>\<open>timers\<close>: \<^verbatim>\<open>{ intervalId, remainingSeconds, isRunning }\<close>.\<close>

record timer =
  intervalId :: "nat option"
  remainingSeconds :: int
  isRunning :: bool

text \<open>
  An object of the stored array. \<^verbatim>\<open>JSON.stringify\<close> writes \<^verbatim>\<open>NaN\<close> as \<^verbatim>\<open>null\<close>, so the
  id of a row whose attribute is no number is stored as \<^verbatim>\<open>null\<close> (\<open>None\<close>).
\<close>

record round =
  id' :: "int option"
  gameName :: string
  gameIcon :: string
  prompt :: string
  resourceHTML :: string
  timerMin :: int
  timerSec :: int
  isCompleted :: bool

datatype entry = NullEntry | RoundEntry round

text \<open>What \<^verbatim>\<open>JSON.parse\<close> makes of a stored text that is JSON.\<close>

datatype parsed = NonArray | Array "entry list"

text \<open>A stored text: the empty string, text that is not JSON, or JSON.\<close>

datatype stored = EmptyString | NotJSON | JSON parsed

datatype effect =
    Alert string
  | ScrollIntoView string
  | PlayTimerSound
  | CelebrateCompletion

text \<open>
  The page. \<open>timers\<close> is kept in the order \<^verbatim>\<open>Object.entries\<close> enumerates it.
  \<open>intervals\<close> are the intervals that are registered and not cleared, each with the
  row id its callback closes over. \<open>quotaExceeded\<close> is the browser's: it says whether
  \<^verbatim>\<open>localStorage.setItem\<close> throws.
\<close>

record state =
  tableRows :: "row list"
  timers :: "(int \<times> timer) list"
  nextRowId :: int
  localStorage :: "string \<rightharpoonup> stored"
  quotaExceeded :: bool
  intervals :: "(nat \<times> int) list"
  lastIntervalId :: nat
  activeTimerText :: string
  activeTimerColor :: string
  progressFillWidth :: rat
  progressText :: string
  effects :: "effect list"

definition STORAGE_SCHEMA_VERSION :: int where
  "STORAGE_SCHEMA_VERSION = 1"

definition STORAGE_KEY :: string where
  "STORAGE_KEY = ''gameNightRounds''"

text \<open>
  The browser's parser: the text content and the serialised markup of the nodes it
  builds from a fragment of markup.
\<close>

record dom =
  textContentOf :: "string \<Rightarrow> string"
  innerHTMLOf :: "string \<Rightarrow> string"

subsection \<open>Rows by id\<close>

text \<open>\<^verbatim>\<open>document.querySelector(`tr[data-row-id="${rowId}"]`)\<close>: the first row that matches.\<close>

definition selectsRow :: "int \<Rightarrow> row \<Rightarrow> bool" where
  "selectsRow rowId r \<longleftrightarrow> data_row_id r = numberToString rowId"

definition queryRow :: "int \<Rightarrow> row list \<Rightarrow> row option" where
  "queryRow rowId rs = find (selectsRow rowId) rs"

text \<open>A change to the row \<^verbatim>\<open>querySelector\<close> returns; none when no row matches.\<close>

fun updateRow :: "int \<Rightarrow> (row \<Rightarrow> row) \<Rightarrow> row list \<Rightarrow> row list" where
  "updateRow rowId f [] = []"
| "updateRow rowId f (r # rs) =
     (if selectsRow rowId r then f r # rs else r # updateRow rowId f rs)"

text \<open>\<^verbatim>\<open>row.remove()\<close> on that row.\<close>

fun removeRow :: "int \<Rightarrow> row list \<Rightarrow> row list" where
  "removeRow rowId [] = []"
| "removeRow rowId (r # rs) = (if selectsRow rowId r then rs else r # removeRow rowId rs)"

subsection \<open>The object \<open>timers\<close>\<close>

text \<open>
  \<^verbatim>\<open>Object.entries\<close> lists the keys that are array indices first, in ascending numeric
  order, then the other keys in the order they were created. Assigning to a key that
  exists keeps its place.
\<close>

definition isArrayIndex :: "int \<Rightarrow> bool" where
  "isArrayIndex k \<longleftrightarrow> 0 \<le> k \<and> k < 4294967295"

fun insertIndexKey :: "int \<Rightarrow> timer \<Rightarrow> (int \<times> timer) list \<Rightarrow> (int \<times> timer) list" where
  "insertIndexKey k v [] = [(k, v)]"
| "insertIndexKey k v (e # es) =
     (if isArrayIndex (fst e) \<and> fst e < k then e # insertIndexKey k v es
      else (k, v) # e # es)"

fun replaceEntry :: "int \<Rightarrow> timer \<Rightarrow> (int \<times> timer) list \<Rightarrow> (int \<times> timer) list" where
  "replaceEntry k v [] = []"
| "replaceEntry k v (e # es) = (if fst e = k then (k, v) # es else e # replaceEntry k v es)"

text \<open>\<^verbatim>\<open>timers[k] = v\<close>, and a write to a field of \<^verbatim>\<open>timers[k]\<close>.\<close>

definition setTimer :: "int \<Rightarrow> timer \<Rightarrow> (int \<times> timer) list \<Rightarrow> (int \<times> timer) list" where
  "setTimer k v ts =
     (if map_of ts k \<noteq> None then replaceEntry k v ts
      else if isArrayIndex k then insertIndexKey k v ts
      else ts @ [(k, v)])"

text \<open>\<^verbatim>\<open>delete timers[k]\<close>.\<close>

definition deleteTimer :: "int \<Rightarrow> (int \<times> timer) list \<Rightarrow> (int \<times> timer) list" where
  "deleteTimer k ts = filter (\<lambda>e. fst e \<noteq> k) ts"

text \<open>\<^verbatim>\<open>clearInterval(h)\<close>.\<close>

definition clearInterval :: "nat \<Rightarrow> state \<Rightarrow> state" where
  "clearInterval h s = s\<lparr>intervals := filter (\<lambda>e. fst e \<noteq> h) (intervals s)\<rparr>"

text \<open>
  \<^verbatim>\<open>if (timers[rowId].intervalId) { clearInterval(...); timers[rowId].intervalId = null; }\<close>:
  a handle is a positive number, and \<open>0\<close> would be falsy.
\<close>

definition clearTimerInterval :: "int \<Rightarrow> state \<Rightarrow> state" where
  "clearTimerInterval rowId s =
     (case map_of (timers s) rowId of
        None \<Rightarrow> s
      | Some t \<Rightarrow>
          (case intervalId t of
             None \<Rightarrow> s
           | Some h \<Rightarrow>
               if h = 0 then s
               else (clearInterval h s)
                      \<lparr>timers := setTimer rowId (t\<lparr>intervalId := None\<rparr>) (timers s)\<rparr>))"

text \<open>A write to fields of \<^verbatim>\<open>timers[rowId]\<close>, which must exist.\<close>

definition modifyTimer :: "int \<Rightarrow> (timer \<Rightarrow> timer) \<Rightarrow> (int \<times> timer) list \<Rightarrow> (int \<times> timer) list" where
  "modifyTimer rowId f ts =
     (case map_of ts rowId of None \<Rightarrow> ts | Some t \<Rightarrow> setTimer rowId (f t) ts)"

subsection \<open>Timer system\<close>

definition getTimerSeconds :: "row \<Rightarrow> int" where
  "getTimerSeconds r =
     (let minutes = orZero (parseInt (timer_min_value r));
          seconds = orZero (parseInt (timer_sec_value r))
      in (minutes * 60) + seconds)"

definition updateTimerDisplay :: "int \<Rightarrow> state \<Rightarrow> state" where
  "updateTimerDisplay rowId s =
     (case queryRow rowId (tableRows s) of
        None \<Rightarrow> s
      | Some _ \<Rightarrow>
          (case map_of (timers s) rowId of
             None \<Rightarrow> s
           | Some t \<Rightarrow>
               s\<lparr>tableRows :=
                   updateRow rowId
                     (\<lambda>r. r\<lparr>timer_display_text := formatTime (remainingSeconds t)\<rparr>)
                     (tableRows s)\<rparr>))"

text \<open>
  The running timers, as \<^verbatim>\<open>Object.entries(timers).filter(...).map(...)\<close> lists them:
  pairs of id and seconds.
\<close>

definition runningTimers :: "(int \<times> timer) list \<Rightarrow> (int \<times> int) list" where
  "runningTimers ts =
     map (\<lambda>e. (fst e, remainingSeconds (snd e)))
       (filter (\<lambda>e. isRunning (snd e) \<and> remainingSeconds (snd e) > 0) ts)"

text \<open>\<^verbatim>\<open>runningTimers.reduce((min, t) => t.seconds < min.seconds ? t : min)\<close>.\<close>

definition leastTime :: "(int \<times> int) \<Rightarrow> (int \<times> int) list \<Rightarrow> (int \<times> int)" where
  "leastTime first rest = foldl (\<lambda>least t. if snd t < snd least then t else least) first rest"

definition urgencyColor :: "int \<Rightarrow> string" where
  "urgencyColor seconds =
     (if seconds \<le> 10 then ''#f85149''
      else if seconds \<le> 30 then ''#d29922''
      else ''#58a6ff'')"

definition updateGlobalTimerDisplay :: "state \<Rightarrow> state" where
  "updateGlobalTimerDisplay s =
     (case runningTimers (timers s) of
        [] \<Rightarrow> s\<lparr>activeTimerText := ''No active timer'', activeTimerColor := ''#58a6ff''\<rparr>
      | first # rest \<Rightarrow>
          (let urgent = leastTime first rest in
           case queryRow (fst urgent) (tableRows s) of
             None \<Rightarrow> s
           | Some r \<Rightarrow>
               s\<lparr>activeTimerText := trim (game_name_text r) @ '': '' @ formatTime (snd urgent),
                 activeTimerColor := urgencyColor (snd urgent)\<rparr>))"

definition timerFinished :: "int \<Rightarrow> state \<Rightarrow> state" where
  "timerFinished rowId s =
     (case queryRow rowId (tableRows s) of
        None \<Rightarrow> s
      | Some _ \<Rightarrow>
          (case map_of (timers s) rowId of
             None \<Rightarrow> s
           | Some _ \<Rightarrow>
               (let s1 = clearTimerInterval rowId s;
                    s2 = s1\<lparr>timers :=
                            modifyTimer rowId (\<lambda>t. t\<lparr>isRunning := False, remainingSeconds := 0\<rparr>)
                              (timers s1)\<rparr>;
                    s3 = s2\<lparr>tableRows :=
                            updateRow rowId
                              (\<lambda>r. r\<lparr>timer_display_text := ''TIME!'',
                                     timer_display_classes :=
                                       insert Finished
                                         (timer_display_classes r - {Running, Warning, Danger}),
                                     row_classes := insert TimerFinished (row_classes r - {Active})\<rparr>)
                              (tableRows s2)\<rparr>;
                    s4 = s3\<lparr>effects := effects s3 @ [PlayTimerSound]\<rparr>
                in updateGlobalTimerDisplay s4)))"

text \<open>The colour change of the interval callback, on the classes of the display.\<close>

definition tickClasses :: "int \<Rightarrow> displayClass set \<Rightarrow> displayClass set" where
  "tickClasses remaining c =
     (if remaining \<le> 10 \<and> remaining > 0 then insert Danger (c - {Running, Warning})
      else if remaining \<le> 30 \<and> remaining > 10 then insert Warning (c - {Running, Danger})
      else c)"

text \<open>
  The callback \<^verbatim>\<open>startTimer\<close> hands to \<^verbatim>\<open>setInterval\<close>. It reads \<^verbatim>\<open>timers[rowId]\<close> anew
  each time; the display it closes over is taken to be the display of the row the
  selector finds (it is, while row ids are unique).
\<close>

definition intervalCallback :: "int \<Rightarrow> state \<Rightarrow> state" where
  "intervalCallback rowId s =
     (case map_of (timers s) rowId of
        None \<Rightarrow> s
      | Some t \<Rightarrow>
          (let remaining = remainingSeconds t - 1;
               s1 = s\<lparr>timers := setTimer rowId (t\<lparr>remainingSeconds := remaining\<rparr>) (timers s)\<rparr>;
               s2 = updateTimerDisplay rowId s1;
               s3 = s2\<lparr>tableRows :=
                       updateRow rowId
                         (\<lambda>r. r\<lparr>timer_display_classes :=
                                  tickClasses remaining (timer_display_classes r)\<rparr>)
                         (tableRows s2)\<rparr>;
               s4 = (if remaining \<le> 0 then timerFinished rowId s3 else s3)
           in updateGlobalTimerDisplay s4))"

text \<open>One second passes for the interval \<open>h\<close>: its callback runs, if it is still registered.\<close>

definition tick :: "nat \<Rightarrow> state \<Rightarrow> state" where
  "tick h s =
     (case map_of (intervals s) h of
        None \<Rightarrow> s
      | Some rowId \<Rightarrow> intervalCallback rowId s)"

definition newTimer :: "int \<Rightarrow> timer" where
  "newTimer totalSeconds =
     \<lparr>intervalId = None, remainingSeconds = totalSeconds, isRunning = False\<rparr>"

definition startTimer :: "int \<Rightarrow> state \<Rightarrow> state" where
  "startTimer rowId s =
     (case queryRow rowId (tableRows s) of
        None \<Rightarrow> s
      | Some r \<Rightarrow>
          if (case map_of (timers s) rowId of None \<Rightarrow> False | Some t \<Rightarrow> isRunning t) then s
          else
            (let t0 = (case map_of (timers s) rowId of
                         None \<Rightarrow> newTimer (getTimerSeconds r)
                       | Some t \<Rightarrow>
                           if remainingSeconds t = 0 then newTimer (getTimerSeconds r) else t);
                 s1 = s\<lparr>timers := setTimer rowId t0 (timers s)\<rparr>
             in if remainingSeconds t0 \<le> 0
                then s1\<lparr>tableRows :=
                          updateRow rowId (\<lambda>r. r\<lparr>timer_display_text := ''Set time!''\<rparr>)
                            (tableRows s1)\<rparr>
                else
                  (let s2 = s1\<lparr>tableRows :=
                               updateRow rowId
                                 (\<lambda>r. r\<lparr>row_classes :=
                                          insert Active (row_classes r) - {TimerFinished},
                                        timer_display_classes :=
                                          insert Running (timer_display_classes r) - {Finished}\<rparr>)
                                 (tableRows s1)\<rparr>;
                       s3 = s2\<lparr>timers := modifyTimer rowId (\<lambda>t. t\<lparr>isRunning := True\<rparr>) (timers s2)\<rparr>;
                       s4 = updateTimerDisplay rowId s3;
                       s5 = updateGlobalTimerDisplay s4;
                       h = lastIntervalId s5 + 1
                   in s5\<lparr>timers := modifyTimer rowId (\<lambda>t. t\<lparr>intervalId := Some h\<rparr>) (timers s5),
                        intervals := intervals s5 @ [(h, rowId)],
                        lastIntervalId := h\<rparr>)))"

definition pauseTimer :: "int \<Rightarrow> state \<Rightarrow> state" where
  "pauseTimer rowId s =
     (case map_of (timers s) rowId of
        None \<Rightarrow> s
      | Some _ \<Rightarrow>
          (case queryRow rowId (tableRows s) of
             None \<Rightarrow> s
           | Some _ \<Rightarrow>
               (let s1 = clearTimerInterval rowId s;
                    s2 = s1\<lparr>timers := modifyTimer rowId (\<lambda>t. t\<lparr>isRunning := False\<rparr>) (timers s1)\<rparr>;
                    s3 = s2\<lparr>tableRows :=
                            updateRow rowId
                              (\<lambda>r. r\<lparr>timer_display_classes := timer_display_classes r - {Running},
                                     row_classes := row_classes r - {Active}\<rparr>)
                              (tableRows s2)\<rparr>
                in updateGlobalTimerDisplay s3)))"

text \<open>
  \<^verbatim>\<open>if (timers[rowId] && timers[rowId].intervalId) clearInterval(timers[rowId].intervalId)\<close>,
  as \<^verbatim>\<open>resetTimer\<close> and \<^verbatim>\<open>deleteRow\<close> do before they replace or delete the entry.
\<close>

definition clearIfRunning :: "int \<Rightarrow> state \<Rightarrow> state" where
  "clearIfRunning rowId s =
     (case map_of (timers s) rowId of
        None \<Rightarrow> s
      | Some t \<Rightarrow>
          (case intervalId t of
             None \<Rightarrow> s
           | Some h \<Rightarrow> if h = 0 then s else clearInterval h s))"

definition resetTimer :: "int \<Rightarrow> state \<Rightarrow> state" where
  "resetTimer rowId s =
     (case queryRow rowId (tableRows s) of
        None \<Rightarrow> s
      | Some _ \<Rightarrow>
          (let s1 = clearIfRunning rowId s;
               s2 = s1\<lparr>timers := setTimer rowId (newTimer 0) (timers s1)\<rparr>;
               s3 = s2\<lparr>tableRows :=
                       updateRow rowId
                         (\<lambda>r. r\<lparr>timer_display_text := ''00:00'',
                                timer_display_classes :=
                                  timer_display_classes r - {Running, Warning, Danger, Finished},
                                row_classes := row_classes r - {Active, TimerFinished}\<rparr>)
                         (tableRows s2)\<rparr>
           in updateGlobalTimerDisplay s3))"

subsection \<open>Checkbox and progress system\<close>

definition updateProgress :: "state \<Rightarrow> state" where
  "updateProgress s =
     (let checkedCount = length (filter done_checkbox (tableRows s));
          totalCount = length (tableRows s);
          percentage = (if totalCount > 0 then (of_nat checkedCount / of_nat totalCount) * 100 else 0);
          s1 = s\<lparr>progressFillWidth := percentage,
                 progressText :=
                   numberToString (int checkedCount) @ '' of '' @ numberToString (int totalCount) @
                   '' rounds completed''\<rparr>
      in if checkedCount = totalCount \<and> totalCount > 0
         then s1\<lparr>progressText :=
                   partyPopper @ '' All '' @ numberToString (int totalCount) @
                   '' rounds completed! Great game night! '' @ partyPopper,
                 effects := effects s1 @ [CelebrateCompletion]\<rparr>
         else s1)"

text \<open>
  The loop of \<^verbatim>\<open>scrollToNextUnchecked\<close>: the first row after a row with the current id
  whose checkbox is not checked.
\<close>

fun nextUnchecked :: "int \<Rightarrow> bool \<Rightarrow> row list \<Rightarrow> row option" where
  "nextUnchecked currentRowId foundCurrent [] = None"
| "nextUnchecked currentRowId foundCurrent (r # rs) =
     (if parseInt (data_row_id r) = Some currentRowId then nextUnchecked currentRowId True rs
      else if foundCurrent \<and> \<not> done_checkbox r then Some r
      else nextUnchecked currentRowId foundCurrent rs)"

definition scrollToNextUnchecked :: "int \<Rightarrow> state \<Rightarrow> state" where
  "scrollToNextUnchecked currentRowId s =
     (case nextUnchecked currentRowId False (tableRows s) of
        None \<Rightarrow> s
      | Some r \<Rightarrow> s\<lparr>effects := effects s @ [ScrollIntoView (data_row_id r)]\<rparr>)"

subsection \<open>Local storage persistence system\<close>

definition roundOfRow :: "row \<Rightarrow> round" where
  "roundOfRow r =
     (let rowId = parseInt (data_row_id r);
          name = trim (game_name_text r);
          icon = (case game_icon_text r of
                    None \<Rightarrow> defaultIcon
                  | Some t \<Rightarrow> if trim t = [] then defaultIcon else trim t)
      in \<lparr>id' = rowId,
          gameName = trim (replaceFirst icon [] name),
          gameIcon = icon,
          prompt = round_prompt_html r,
          resourceHTML = resource_cell_html r,
          timerMin = orZero (parseInt (timer_min_value r)),
          timerSec = orZero (parseInt (timer_sec_value r)),
          isCompleted = done_checkbox r\<rparr>)"

definition saveRoundsToStorage :: "state \<Rightarrow> state" where
  "saveRoundsToStorage s =
     (let rounds = map roundOfRow (tableRows s) in
      if quotaExceeded s then s
      else s\<lparr>localStorage := (localStorage s)(STORAGE_KEY \<mapsto> JSON (Array (map RoundEntry rounds)))\<rparr>)"

text \<open>The row \<^verbatim>\<open>loadRoundsFromStorage\<close> builds from a stored object.\<close>

definition nameCellMarkup :: "string \<Rightarrow> string \<Rightarrow> string" where
  "nameCellMarkup icon name =
     nl @ ''<span class='' @ dq @ ''game-icon'' @ dq @ ''>'' @ icon @ ''</span>'' @ nl @ name @ nl"

definition rowOfRound :: "dom \<Rightarrow> round \<Rightarrow> row" where
  "rowOfRound d r =
     (let promptHTML = (if looksLikeHTML (prompt r) then prompt r
                        else buildPromptHTML (prompt r) True)
      in \<lparr>data_row_id = (case id' r of None \<Rightarrow> ''null'' | Some n \<Rightarrow> numberToString n),
          game_name_text = textContentOf d (nameCellMarkup (gameIcon r) (gameName r)),
          game_icon_text = Some (textContentOf d (gameIcon r)),
          round_prompt_html = innerHTMLOf d (nl @ promptHTML @ nl),
          resource_cell_html = innerHTMLOf d (nl @ resourceHTML r @ nl),
          timer_min_value = numberToString (timerMin r),
          timer_sec_value = numberToString (timerSec r),
          done_checkbox = isCompleted r,
          row_classes = (if isCompleted r then {Completed} else {}),
          timer_display_text = ''00:00'',
          timer_display_classes = {}\<rparr>)"

datatype exn = SyntaxError | TypeError

text \<open>
  The \<^verbatim>\<open>forEach\<close> of \<^verbatim>\<open>loadRoundsFromStorage\<close>, from the cleared table on: \<^verbatim>\<open>round.id\<close> on
  \<^verbatim>\<open>null\<close> throws, with the rows built so far in the table.
\<close>

fun rebuildRows :: "dom \<Rightarrow> entry list \<Rightarrow> int \<Rightarrow> row list \<Rightarrow> (exn \<times> row list) + (int \<times> row list)" where
  "rebuildRows d [] maxId acc = Inr (maxId, acc)"
| "rebuildRows d (NullEntry # es) maxId acc = Inl (TypeError, acc)"
| "rebuildRows d (RoundEntry r # es) maxId acc =
     rebuildRows d es
       (case id' r of None \<Rightarrow> maxId | Some n \<Rightarrow> if n > maxId then n else maxId)
       (acc @ [rowOfRound d r])"

text \<open>The body of the \<^verbatim>\<open>try\<close> block: an exception, or the returned flag, each with the page.\<close>

definition loadBody :: "dom \<Rightarrow> state \<Rightarrow> (exn \<times> state) + (bool \<times> state)" where
  "loadBody d s =
     (case localStorage s STORAGE_KEY of
        None \<Rightarrow> Inr (False, s)
      | Some EmptyString \<Rightarrow> Inr (False, s)
      | Some NotJSON \<Rightarrow> Inl (SyntaxError, s)
      | Some (JSON NonArray) \<Rightarrow> Inr (False, s)
      | Some (JSON (Array rounds)) \<Rightarrow>
          if length rounds = 0 then Inr (False, s)
          else
            (case rebuildRows d rounds 0 [] of
               Inl (e, rows) \<Rightarrow> Inl (e, s\<lparr>tableRows := rows\<rparr>)
             | Inr (maxId, rows) \<Rightarrow> Inr (True, s\<lparr>tableRows := rows, nextRowId := maxId + 1\<rparr>)))"

text \<open>\<^verbatim>\<open>try { ... } catch (e) { console.warn(...); return false; }\<close>.\<close>

definition loadRoundsFromStorage :: "dom \<Rightarrow> state \<Rightarrow> bool \<times> state" where
  "loadRoundsFromStorage d s =
     (case loadBody d s of
        Inl (e, s') \<Rightarrow> (False, s')
      | Inr result \<Rightarrow> result)"

definition clearSavedRounds :: "bool \<Rightarrow> state \<Rightarrow> state" where
  "clearSavedRounds confirmed s =
     (if \<not> confirmed then s
      else s\<lparr>localStorage := (localStorage s)(STORAGE_KEY := None),
             effects := effects s @
               [Alert ''Saved data cleared. Refresh the page to see default rounds.'']\<rparr>)"

definition toggleDone :: "int \<Rightarrow> bool \<Rightarrow> state \<Rightarrow> state" where
  "toggleDone rowId checked s =
     (case queryRow rowId (tableRows s) of
        None \<Rightarrow> s
      | Some _ \<Rightarrow>
          (let s1 = (if checked
                     then scrollToNextUnchecked rowId
                            (pauseTimer rowId
                               (s\<lparr>tableRows :=
                                    updateRow rowId
                                      (\<lambda>r. r\<lparr>row_classes := insert Completed (row_classes r)\<rparr>)
                                      (tableRows s)\<rparr>))
                     else s\<lparr>tableRows :=
                              updateRow rowId
                                (\<lambda>r. r\<lparr>row_classes := row_classes r - {Completed}\<rparr>)
                                (tableRows s)\<rparr>)
           in saveRoundsToStorage (updateProgress s1)))"

text \<open>
  A click on the checkbox of the row with this id: the browser flips the checkbox, then
  runs \<^verbatim>\<open>onchange="toggleDone(id, this)"\<close>.
\<close>

definition clickDone :: "int \<Rightarrow> state \<Rightarrow> state" where
  "clickDone rowId s =
     (case queryRow rowId (tableRows s) of
        None \<Rightarrow> s
      | Some r \<Rightarrow>
          toggleDone rowId (\<not> done_checkbox r)
            (s\<lparr>tableRows :=
                 updateRow rowId (\<lambda>r. r\<lparr>done_checkbox := \<not> done_checkbox r\<rparr>) (tableRows s)\<rparr>))"

subsection \<open>Adding, deleting and reordering rounds\<close>

text \<open>The values of the inputs of the add-round form when \<^verbatim>\<open>addNewRound\<close> reads them.\<close>

record form =
  newGameName :: string
  newGameIcon :: string
  newPrompt :: string
  newResourceType :: string
  newResourcePath :: string
  newTimerMin :: string
  newTimerSec :: string

definition memoGlyph :: string where
  "memoGlyph = [CHR 0xF0, CHR 0x9F, CHR 0x93, CHR 0x9D]"

definition cameraGlyph :: string where
  "cameraGlyph = [CHR 0xF0, CHR 0x9F, CHR 0x93, CHR 0xB9]"

text \<open>The \<^verbatim>\<open>switch (resourceType)\<close> of \<^verbatim>\<open>addNewRound\<close>.\<close>

definition resourceMarkup :: "string \<Rightarrow> string \<Rightarrow> string" where
  "resourceMarkup resourceType resourcePath =
     (if resourceType = ''audio'' then
        nl @ ''<div class='' @ dq @ ''audio-container'' @ dq @ ''>'' @ nl @
        ''<audio controls class='' @ dq @ ''audio-player'' @ dq @ ''>'' @ nl @
        ''<source src='' @ dq @ resourcePath @ dq @ '' type='' @ dq @ ''audio/mpeg'' @ dq @ ''>'' @ nl @
        ''</audio>'' @ nl @ ''</div>'' @ nl
      else if resourceType = ''image'' then
        nl @ ''<div class='' @ dq @ ''spoiler-container'' @ dq @ ''>'' @ nl @
        ''<button class='' @ dq @ ''btn btn-reveal'' @ dq @ '' onclick='' @ dq @
        ''toggleReveal(this)'' @ dq @ ''>Reveal Image</button>'' @ nl @
        ''<div class='' @ dq @ ''image-container hidden'' @ dq @ ''>'' @ nl @
        ''<img '' @ nl @ ''src='' @ dq @ resourcePath @ dq @ '' '' @ nl @
        ''alt='' @ dq @ ''Round image'' @ dq @ '' '' @ nl @
        ''class='' @ dq @ ''thumbnail'' @ dq @ nl @
        ''onclick='' @ dq @ ''openImageModal(this.src, '' @ sq @ ''Round image'' @ sq @ '')'' @ dq @ nl @
        ''onerror='' @ dq @ ''this.style.display='' @ sq @ ''none'' @ sq @
        ''; this.nextElementSibling.style.display='' @ sq @ ''flex'' @ sq @ '';'' @ dq @ nl @
        ''>'' @ nl @ ''</div>'' @ nl @ ''</div>'' @ nl
      else if resourceType = ''video'' then
        nl @ ''<div class='' @ dq @ ''video-container'' @ dq @ ''>'' @ nl @
        ''<video controls class='' @ dq @ ''video-player'' @ dq @ ''>'' @ nl @
        ''<source src='' @ dq @ resourcePath @ dq @ '' type='' @ dq @ ''video/mp4'' @ dq @ ''>'' @ nl @
        ''<span class='' @ dq @ ''fallback-message'' @ dq @ ''>'' @ cameraGlyph @ '' Add video: '' @
        (if resourcePath = [] then ''videos/file.mp4'' else resourcePath) @ ''</span>'' @ nl @
        ''</video>'' @ nl @ ''</div>'' @ nl
      else if resourceType = ''answer'' then
        nl @ ''<div class='' @ dq @ ''spoiler-answer'' @ dq @ ''>'' @ nl @
        ''<button class='' @ dq @ ''btn btn-reveal'' @ dq @ '' onclick='' @ dq @
        ''toggleReveal(this)'' @ dq @ ''>Reveal Answer</button>'' @ nl @
        ''<span class='' @ dq @ ''answer hidden'' @ dq @ ''>'' @ escapeHtml resourcePath @
        ''</span>'' @ nl @ ''</div>'' @ nl
      else
        ''<span class='' @ dq @ ''text-only-badge'' @ dq @ ''>'' @ memoGlyph @ '' Text Only</span>'')"

text \<open>The row \<^verbatim>\<open>addNewRound\<close> appends.\<close>

definition newRow :: "dom \<Rightarrow> int \<Rightarrow> string \<Rightarrow> string \<Rightarrow> string \<Rightarrow> string \<Rightarrow> int \<Rightarrow> int \<Rightarrow> row" where
  "newRow d rowId icon name promptHTML resource minutes seconds =
     \<lparr>data_row_id = numberToString rowId,
      game_name_text = textContentOf d (nameCellMarkup icon name),
      game_icon_text = Some (textContentOf d icon),
      round_prompt_html = innerHTMLOf d (nl @ promptHTML @ nl),
      resource_cell_html = innerHTMLOf d (nl @ resource @ nl),
      timer_min_value = numberToString minutes,
      timer_sec_value = numberToString seconds,
      done_checkbox = False,
      row_classes = {},
      timer_display_text = ''00:00'',
      timer_display_classes = {}\<rparr>"

definition addNewRound :: "dom \<Rightarrow> form \<Rightarrow> state \<Rightarrow> state" where
  "addNewRound d f s =
     (let name = trim (newGameName f);
          icon = (if trim (newGameIcon f) = [] then defaultIcon else trim (newGameIcon f));
          promptText = trim (newPrompt f);
          promptHTML = buildPromptHTML promptText True;
          resourceType = newResourceType f;
          resourcePath = trim (newResourcePath f);
          minutes = orZero (parseInt (newTimerMin f));
          seconds = orZero (parseInt (newTimerSec f))
      in if name = [] then s\<lparr>effects := effects s @ [Alert ''Please enter a game name.'']\<rparr>
         else if promptText = [] then
           s\<lparr>effects := effects s @ [Alert ''Please enter a round/prompt.'']\<rparr>
         else
           (let resource = resourceMarkup resourceType resourcePath;
                rowId = nextRowId s;
                s1 = s\<lparr>nextRowId := rowId + 1,
                       tableRows := tableRows s @
                         [newRow d rowId icon name promptHTML resource minutes seconds]\<rparr>;
                s2 = saveRoundsToStorage (updateProgress s1)
            in case queryRow rowId (tableRows s2) of
                 None \<Rightarrow> s2
               | Some r \<Rightarrow> s2\<lparr>effects := effects s2 @ [ScrollIntoView (data_row_id r)]\<rparr>))"

definition deleteRow :: "int \<Rightarrow> bool \<Rightarrow> state \<Rightarrow> state" where
  "deleteRow rowId confirmed s =
     (if \<not> confirmed then s
      else
        (let s1 = (case map_of (timers s) rowId of
                     None \<Rightarrow> s
                   | Some _ \<Rightarrow>
                       (let c = clearIfRunning rowId s
                        in c\<lparr>timers := deleteTimer rowId (timers c)\<rparr>));
             s2 = s1\<lparr>tableRows := removeRow rowId (tableRows s1)\<rparr>
         in saveRoundsToStorage (updateGlobalTimerDisplay (updateProgress s2))))"

text \<open>The position of the row the selector finds.\<close>

definition rowIndex :: "int \<Rightarrow> row list \<Rightarrow> nat option" where
  "rowIndex rowId rs =
     (if \<exists>r \<in> set rs. selectsRow rowId r
      then Some (length (takeWhile (\<lambda>r. \<not> selectsRow rowId r) rs))
      else None)"

text \<open>The rows at \<open>i\<close> and \<open>i + 1\<close> change places: \<^verbatim>\<open>insertBefore\<close> in both functions.\<close>

definition swapWithNext :: "nat \<Rightarrow> row list \<Rightarrow> row list" where
  "swapWithNext i rs = rs[i := rs ! (i + 1), i + 1 := rs ! i]"

definition moveRowUp :: "int \<Rightarrow> state \<Rightarrow> state" where
  "moveRowUp rowId s =
     (case rowIndex rowId (tableRows s) of
        None \<Rightarrow> s
      | Some i \<Rightarrow>
          if i = 0 then s
          else saveRoundsToStorage (s\<lparr>tableRows := swapWithNext (i - 1) (tableRows s)\<rparr>))"

definition moveRowDown :: "int \<Rightarrow> state \<Rightarrow> state" where
  "moveRowDown rowId s =
     (case rowIndex rowId (tableRows s) of
        None \<Rightarrow> s
      | Some i \<Rightarrow>
          if i + 1 \<ge> length (tableRows s) then s
          else saveRoundsToStorage (s\<lparr>tableRows := swapWithNext i (tableRows s)\<rparr>))"

subsection \<open>Initialisation\<close>

text \<open>
  The fallback of the \<^verbatim>\<open>DOMContentLoaded\<close> handler: the highest id among the rows of the
  page (\<^verbatim>\<open>NaN > maxId\<close> is false).
\<close>

definition maxRowId :: "row list \<Rightarrow> int" where
  "maxRowId rs =
     foldl (\<lambda>maxId r. case parseInt (data_row_id r) of
                         None \<Rightarrow> maxId
                       | Some n \<Rightarrow> if n > maxId then n else maxId) 0 rs"

definition initialise :: "dom \<Rightarrow> state \<Rightarrow> state" where
  "initialise d s =
     (case loadRoundsFromStorage d s of
        (loadedFromStorage, s1) \<Rightarrow>
          updateProgress
            (if \<not> loadedFromStorage then s1\<lparr>nextRowId := maxRowId (tableRows s1) + 1\<rparr> else s1))"

text \<open>
  The page as the browser hands it to the script: the rows of its own markup, no timers,
  \<^verbatim>\<open>nextRowId = 6\<close>, and the storage and quota the browser kept.
\<close>

definition freshPage :: "row list \<Rightarrow> (string \<rightharpoonup> stored) \<Rightarrow> bool \<Rightarrow> state" where
  "freshPage htmlRows store quota =
     \<lparr>tableRows = htmlRows,
      timers = [],
      nextRowId = 6,
      localStorage = store,
      quotaExceeded = quota,
      intervals = [],
      lastIntervalId = 0,
      activeTimerText = [],
      activeTimerColor = [],
      progressFillWidth = 0,
      progressText = [],
      effects = []\<rparr>"

text \<open>A visit: the page is loaded and the handler of \<^verbatim>\<open>DOMContentLoaded\<close> runs.\<close>

definition openPage :: "dom \<Rightarrow> row list \<Rightarrow> (string \<rightharpoonup> stored) \<Rightarrow> bool \<Rightarrow> state" where
  "openPage d htmlRows store quota = initialise d (freshPage htmlRows store quota)"

subsection \<open>Events\<close>

text \<open>
  What happens on the page after it is opened: a button of a row is pressed, a second
  passes for a registered interval, a round is added, a checkbox is clicked. A dialog's
  answer comes with the event.
\<close>

datatype event =
    Start int
  | Pause int
  | Reset int
  | Tick nat
  | Delete int bool
  | Add form
  | MoveUp int
  | MoveDown int
  | ClickDone int
  | ClearSaved bool

fun fire :: "dom \<Rightarrow> state \<Rightarrow> event \<Rightarrow> state" where
  "fire d s (Start rowId) = startTimer rowId s"
| "fire d s (Pause rowId) = pauseTimer rowId s"
| "fire d s (Reset rowId) = resetTimer rowId s"
| "fire d s (Tick h) = tick h s"
| "fire d s (Delete rowId confirmed) = deleteRow rowId confirmed s"
| "fire d s (Add f) = addNewRound d f s"
| "fire d s (MoveUp rowId) = moveRowUp rowId s"
| "fire d s (MoveDown rowId) = moveRowDown rowId s"
| "fire d s (ClickDone rowId) = clickDone rowId s"
| "fire d s (ClearSaved confirmed) = clearSavedRounds confirmed s"


subsection \<open>Notions used to state the properties\<close>

text \<open>A string of decimal digits, as \<open>natToString\<close> writes them.\<close>

definition decimal :: "string \<Rightarrow> bool" where
  "decimal z \<longleftrightarrow> z \<noteq> [] \<and> (\<forall>c \<in> set z. \<exists>d < 10. c = digitChar d)"

text \<open>The numeric ids of the rows of a table.\<close>

definition rowIds :: "row list \<Rightarrow> int set" where
  "rowIds rs = {n. \<exists>r \<in> set rs. parseInt (data_row_id r) = Some n}"

text \<open>Concrete inputs, for the instances of the theorems.\<close>

definition exampleDom :: dom where
  "exampleDom = \<lparr>textContentOf = (\<lambda>markup. markup), innerHTMLOf = (\<lambda>markup. markup)\<rparr>"

definition exampleRow :: "string \<Rightarrow> string \<Rightarrow> string \<Rightarrow> string \<Rightarrow> bool \<Rightarrow> row" where
  "exampleRow rowId name minutes seconds done =
     \<lparr>data_row_id = rowId,
      game_name_text = name,
      game_icon_text = None,
      round_prompt_html = ''Who said it?'',
      resource_cell_html = [],
      timer_min_value = minutes,
      timer_sec_value = seconds,
      done_checkbox = done,
      row_classes = (if done then {Completed} else {}),
      timer_display_text = ''00:00'',
      timer_display_classes = {}\<rparr>"

text \<open>
  The words of claim C5, "a schema-version tag accompanies the snapshot in storage": the
  typed array of rounds has no room for a tag, so a tag would be a second key, or the
  snapshot would be wrapped in a value that is no array.
\<close>

definition spec_versionTagRecorded :: "(string \<rightharpoonup> stored) \<Rightarrow> bool" where
  "spec_versionTagRecorded store \<longleftrightarrow>
     (\<exists>k. k \<noteq> STORAGE_KEY \<and> store k \<noteq> None) \<or> store STORAGE_KEY = Some (JSON NonArray)"

definition exampleRound :: round where
  "exampleRound =
     \<lparr>id' = Some 4, gameName = ''Trivia'', gameIcon = ''T'', prompt = ''Who?'',
      resourceHTML = [], timerMin = 1, timerSec = 30, isCompleted = False\<rparr>"


text \<open>
  Every round is completed and there is at least one: the condition under which
  \<^verbatim>\<open>updateProgress\<close> celebrates.
\<close>

definition fullyComplete :: "row list \<Rightarrow> bool" where
  "fullyComplete rs \<longleftrightarrow> length (filter done_checkbox rs) = length rs \<and> length rs > 0"

text \<open>How often \<^verbatim>\<open>celebrateCompletion\<close> has been called.\<close>

definition celebrations :: "state \<Rightarrow> nat" where
  "celebrations s = count_list (effects s) CelebrateCompletion"

text \<open>The form passes the two checks of \<^verbatim>\<open>addNewRound\<close>.\<close>

definition formIsValid :: "form \<Rightarrow> bool" where
  "formIsValid f \<longleftrightarrow> trim (newGameName f) \<noteq> [] \<and> trim (newPrompt f) \<noteq> []"

text \<open>The events whose handler calls \<^verbatim>\<open>updateProgress\<close>.\<close>

fun recomputesProgress :: "event \<Rightarrow> state \<Rightarrow> bool" where
  "recomputesProgress (Delete rowId confirmed) s = confirmed"
| "recomputesProgress (Add f) s = formIsValid f"
| "recomputesProgress (ClickDone rowId) s = (queryRow rowId (tableRows s) \<noteq> None)"
| "recomputesProgress _ s = False"

text \<open>The row \<^verbatim>\<open>addNewRound\<close> builds from a form and an id.\<close>

definition addedRow :: "dom \<Rightarrow> form \<Rightarrow> int \<Rightarrow> row" where
  "addedRow d f rowId =
     newRow d rowId
       (if trim (newGameIcon f) = [] then defaultIcon else trim (newGameIcon f))
       (trim (newGameName f))
       (buildPromptHTML (trim (newPrompt f)) True)
       (resourceMarkup (newResourceType f) (trim (newResourcePath f)))
       (orZero (parseInt (newTimerMin f)))
       (orZero (parseInt (newTimerSec f)))"

text \<open>The width of the progress bar, \<^verbatim>\<open>(checkedCount / totalCount) * 100\<close>, or \<open>0\<close>.\<close>

definition percentageOf :: "row list \<Rightarrow> rat" where
  "percentageOf rs =
     (if length rs > 0 then (of_nat (length (filter done_checkbox rs)) / of_nat (length rs)) * 100
      else 0)"

text \<open>
  The order of \<^verbatim>\<open>Object.entries\<close> on two keys: an array index comes before every key
  that is none, and before every larger array index.
\<close>

definition keyBefore :: "int \<Rightarrow> int \<Rightarrow> bool" where
  "keyBefore a b \<longleftrightarrow> a \<noteq> b \<and> (isArrayIndex b \<longrightarrow> isArrayIndex a \<and> a < b)"

text \<open>A list of entries in the order \<^verbatim>\<open>Object.entries\<close> gives them, no key twice.\<close>

definition entriesOrdered :: "(int \<times> 'a) list \<Rightarrow> bool" where
  "entriesOrdered es \<longleftrightarrow> sorted_wrt keyBefore (map fst es)"

text \<open>
  Timers and intervals fit together: the entries of \<open>timers\<close> are in enumeration order; a
  running timer has time left, a timer that is not running has no interval, and no handle
  is \<open>0\<close>; every registered interval belongs to a row that is there and is the interval
  of that row's timer.
\<close>

definition timersSound :: "state \<Rightarrow> bool" where
  "timersSound s \<longleftrightarrow>
     entriesOrdered (timers s) \<and>
     (\<forall>k t. map_of (timers s) k = Some t \<longrightarrow>
        (isRunning t \<longrightarrow> 0 < remainingSeconds t) \<and>
        (\<not> isRunning t \<longrightarrow> intervalId t = None) \<and>
        intervalId t \<noteq> Some 0) \<and>
     (\<forall>h k. map_of (intervals s) h = Some k \<longrightarrow>
        queryRow k (tableRows s) \<noteq> None \<and>
        (\<exists>t. map_of (timers s) k = Some t \<and> intervalId t = Some h))"

text \<open>What the display of a row shows after a tick that leaves \<open>n\<close> seconds.\<close>

definition tickDisplay :: "int \<Rightarrow> row \<Rightarrow> row" where
  "tickDisplay n r =
     (if n \<le> 0
      then r\<lparr>timer_display_text := ''TIME!'',
             timer_display_classes := insert Finished (timer_display_classes r - {Running, Warning, Danger}),
             row_classes := insert TimerFinished (row_classes r - {Active})\<rparr>
      else r\<lparr>timer_display_text := formatTime n,
             timer_display_classes := tickClasses n (timer_display_classes r)\<rparr>)"

text \<open>What \<^verbatim>\<open>startTimer\<close> does to the row when the countdown starts at \<open>n\<close> seconds.\<close>

definition startDisplay :: "int \<Rightarrow> row \<Rightarrow> row" where
  "startDisplay n r =
     r\<lparr>row_classes := insert Active (row_classes r) - {TimerFinished},
       timer_display_classes := insert Running (timer_display_classes r) - {Finished},
       timer_display_text := formatTime n\<rparr>"

text \<open>What \<^verbatim>\<open>resetTimer\<close> does to the row.\<close>

definition resetDisplay :: "row \<Rightarrow> row" where
  "resetDisplay r =
     r\<lparr>timer_display_text := ''00:00'',
       timer_display_classes := timer_display_classes r - {Running, Warning, Danger, Finished},
       row_classes := row_classes r - {Active, TimerFinished}\<rparr>"

text \<open>What \<^verbatim>\<open>pauseTimer\<close> does to the row.\<close>

definition pauseDisplay :: "row \<Rightarrow> row" where
  "pauseDisplay r =
     r\<lparr>timer_display_classes := timer_display_classes r - {Running},
       row_classes := row_classes r - {Active}\<rparr>"


text \<open>Two rows with the same id attribute and the same timer inputs.\<close>

definition sameData :: "row \<Rightarrow> row \<Rightarrow> bool" where
  "sameData r r' \<longleftrightarrow>
     data_row_id r' = data_row_id r \<and>
     timer_min_value r' = timer_min_value r \<and>
     timer_sec_value r' = timer_sec_value r"


text \<open>The duration the add-round form configures, as \<^verbatim>\<open>getTimerSeconds\<close> will read it.\<close>

definition durationOf :: "form \<Rightarrow> int" where
  "durationOf f = orZero (parseInt (newTimerMin f)) * 60 + orZero (parseInt (newTimerSec f))"







section \<open>Numbers and their digits\<close>

declare natToString.simps [simp del]

lemma digitValue_digitChar: "d < 10 \<Longrightarrow> digitValue (digitChar d) = Some d"
proof -
  assume "d < 10"
  then have "d = 0 \<or> d = 1 \<or> d = 2 \<or> d = 3 \<or> d = 4 \<or> d = 5 \<or> d = 6 \<or> d = 7 \<or> d = 8 \<or> d = 9"
    by arith
  then show ?thesis
    by (elim disjE) (simp_all add: digitChar_def digitValue_def)
qed

lemma isDigitOf_digitChar: "d < 10 \<Longrightarrow> isDigitOf 10 (digitChar d)"
  by (simp add: isDigitOf_def digitValue_digitChar)

lemma digitChar_plain:
  assumes "d < 10"
  shows "\<not> isWhiteSpace (digitChar d)" "digitChar d \<noteq> CHR ''-''" "digitChar d \<noteq> CHR ''+''"
    "digitChar d \<noteq> CHR ''x''" "digitChar d \<noteq> CHR ''X''"
proof -
  from assms have "d = 0 \<or> d = 1 \<or> d = 2 \<or> d = 3 \<or> d = 4 \<or> d = 5 \<or> d = 6 \<or> d = 7 \<or> d = 8 \<or> d = 9"
    by arith
  then have "\<not> isWhiteSpace (digitChar d) \<and> digitChar d \<noteq> CHR ''-'' \<and> digitChar d \<noteq> CHR ''+''
     \<and> digitChar d \<noteq> CHR ''x'' \<and> digitChar d \<noteq> CHR ''X''"
    by (elim disjE) (simp_all add: digitChar_def isWhiteSpace_def)
  then show "\<not> isWhiteSpace (digitChar d)" "digitChar d \<noteq> CHR ''-''" "digitChar d \<noteq> CHR ''+''"
    "digitChar d \<noteq> CHR ''x''" "digitChar d \<noteq> CHR ''X''" by simp_all
qed

lemma decimal_natToString: "decimal (natToString n)"
proof (induction n rule: natToString.induct)
  case (1 n)
  show ?case
  proof (cases "n < 10")
    case True
    then show ?thesis by (subst natToString.simps) (auto simp: decimal_def)
  next
    case False
    have "n mod 10 < 10" by simp
    then have "\<exists>d<10. digitChar (n mod 10) = digitChar d" by blast
    with False 1 show ?thesis by (subst natToString.simps) (auto simp: decimal_def)
  qed
qed

lemma digitsValue_snoc:
  "digitsValue r (z @ [c]) = digitsValue r z * r + (case digitValue c of None \<Rightarrow> 0 | Some d \<Rightarrow> d)"
  by (simp add: digitsValue_def)

lemma digitsValue_natToString: "digitsValue 10 (natToString n) = n"
proof (induction n rule: natToString.induct)
  case (1 n)
  show ?case
  proof (cases "n < 10")
    case True
    then show ?thesis
      by (subst natToString.simps) (simp add: digitsValue_def digitValue_digitChar)
  next
    case False
    with 1 have "digitsValue 10 (natToString (n div 10)) = n div 10" by simp
    with False show ?thesis
      by (subst natToString.simps) (simp add: digitsValue_snoc digitValue_digitChar)
  qed
qed

lemma decimal_stripPrefix:
  assumes "decimal z"
  shows "stripPrefix z = (10, z)"
proof -
  { fix e assume e: "e = CHR ''x'' \<or> e = CHR ''X''" and t: "take 2 z = [CHR ''0'', e]"
    then have "e \<in> set (take 2 z)" by simp
    then have "e \<in> set z" by (rule in_set_takeD)
    with assms obtain d' where "d' < 10" "e = digitChar d'" by (auto simp: decimal_def)
    with e digitChar_plain(4,5) have False by auto }
  then have "take 2 z \<noteq> ''0x''" "take 2 z \<noteq> ''0X''" by auto
  then show ?thesis by (simp add: stripPrefix_def)
qed

lemma decimal_takeWhile:
  assumes "decimal z"
  shows "takeWhile (isDigitOf 10) z = z"
  using assms isDigitOf_digitChar by (auto simp: takeWhile_eq_all_conv decimal_def)

lemma decimal_head:
  assumes "decimal z"
  shows "dropWhile isWhiteSpace z = z" "stripSign z = (False, z)"
proof -
  from assms obtain c cs where z: "z = c # cs" by (cases z) (auto simp: decimal_def)
  with assms obtain d where d: "d < 10" "c = digitChar d" by (auto simp: decimal_def)
  show "dropWhile isWhiteSpace z = z" using z d digitChar_plain(1) by simp
  show "stripSign z = (False, z)" using z d digitChar_plain(2,3) by (simp add: stripSign_def)
qed

lemma parseInt_decimal:
  assumes "decimal z"
  shows "parseInt z = Some (int (digitsValue 10 z))"
proof -
  from assms have "z \<noteq> []" by (simp add: decimal_def)
  then show ?thesis
    by (simp add: parseInt_def decimal_head [OF assms] decimal_stripPrefix [OF assms]
        decimal_takeWhile [OF assms])
qed

lemma parseInt_minus_decimal:
  assumes "decimal z"
  shows "parseInt (CHR ''-'' # z) = Some (- int (digitsValue 10 z))"
proof -
  from assms have ne: "z \<noteq> []" by (simp add: decimal_def)
  have a: "dropWhile isWhiteSpace (CHR ''-'' # z) = CHR ''-'' # z" by (simp add: isWhiteSpace_def)
  have b: "stripSign (CHR ''-'' # z) = (True, z)" by (simp add: stripSign_def)
  show ?thesis
    unfolding parseInt_def a b
    using ne by (simp add: decimal_stripPrefix [OF assms] decimal_takeWhile [OF assms])
qed

text \<open>Reading back a number written into an attribute or an input gives the number.\<close>

lemma parseInt_numberToString [simp]: "parseInt (numberToString n) = Some n"
  by (simp add: numberToString_def parseInt_decimal parseInt_minus_decimal
      decimal_natToString digitsValue_natToString)

lemma numberToString_inject [simp]: "numberToString m = numberToString n \<longleftrightarrow> m = n"
  by (metis parseInt_numberToString option.inject)

lemma parseInt_null [simp]: "parseInt ''null'' = None"
  by (simp add: parseInt_def isWhiteSpace_def stripSign_def stripPrefix_def isDigitOf_def
      digitValue_def)

section \<open>Save and load\<close>











lemma rebuildRows_has_null:
  "NullEntry \<in> set es \<Longrightarrow> \<exists>rows. rebuildRows d es maxId acc = Inl (TypeError, rows)"
proof (induction es arbitrary: maxId acc)
  case Nil
  then show ?case by simp
next
  case (Cons e es)
  then show ?case by (cases e) auto
qed

lemma rebuildRows_no_null:
  "NullEntry \<notin> set es \<Longrightarrow> \<exists>m rows. rebuildRows d es maxId acc = Inr (m, rows)"
proof (induction es arbitrary: maxId acc)
  case Nil
  then show ?case by simp
next
  case (Cons e es)
  then show ?case by (cases e) auto
qed

lemma load_true_iff:
  "fst (loadRoundsFromStorage d s) \<longleftrightarrow>
     (\<exists>rounds. localStorage s STORAGE_KEY = Some (JSON (Array rounds)) \<and> rounds \<noteq> [] \<and>
        NullEntry \<notin> set rounds)"
proof (cases "localStorage s STORAGE_KEY")
  case None
  then show ?thesis by (simp add: loadRoundsFromStorage_def loadBody_def)
next
  case (Some v)
  show ?thesis
  proof (cases v)
    case EmptyString
    with Some show ?thesis by (simp add: loadRoundsFromStorage_def loadBody_def)
  next
    case NotJSON
    with Some show ?thesis by (simp add: loadRoundsFromStorage_def loadBody_def)
  next
    case (JSON p)
    show ?thesis
    proof (cases p)
      case NonArray
      with Some JSON show ?thesis by (simp add: loadRoundsFromStorage_def loadBody_def)
    next
      case (Array rounds)
      show ?thesis
      proof (cases "NullEntry \<in> set rounds")
        case True
        then obtain rows where "rebuildRows d rounds 0 [] = Inl (TypeError, rows)"
          using rebuildRows_has_null by blast
        with Some JSON Array True show ?thesis
          by (simp add: loadRoundsFromStorage_def loadBody_def)
      next
        case False
        then obtain m rows where "rebuildRows d rounds 0 [] = Inr (m, rows)"
          using rebuildRows_no_null by blast
        with Some JSON Array False show ?thesis
          by (simp add: loadRoundsFromStorage_def loadBody_def)
      qed
    qed
  qed
qed

text \<open>
  Claim C9. \<^verbatim>\<open>loadRoundsFromStorage\<close> returns false, and leaves the page as it is, when
  there is no stored text, when the text is empty, when it is not JSON, when it is JSON
  but no array, and when it is the empty array. Whatever the body of its \<^verbatim>\<open>try\<close> block
  throws (a \<^verbatim>\<open>SyntaxError\<close> of \<^verbatim>\<open>JSON.parse\<close>, a \<^verbatim>\<open>TypeError\<close> on a \<^verbatim>\<open>null\<close> entry), the
  function catches it and returns false: it returns true exactly for a non-empty array
  without a \<^verbatim>\<open>null\<close> entry.
\<close>

theorem load_fails_closed:
  "(localStorage s STORAGE_KEY = None \<or>
    localStorage s STORAGE_KEY = Some EmptyString \<or>
    localStorage s STORAGE_KEY = Some NotJSON \<or>
    localStorage s STORAGE_KEY = Some (JSON NonArray) \<or>
    localStorage s STORAGE_KEY = Some (JSON (Array []))
      \<longrightarrow> loadRoundsFromStorage d s = (False, s)) \<and>
   (\<forall>e s'. loadBody d s = Inl (e, s') \<longrightarrow> loadRoundsFromStorage d s = (False, s')) \<and>
   (fst (loadRoundsFromStorage d s) \<longleftrightarrow>
      (\<exists>rounds. localStorage s STORAGE_KEY = Some (JSON (Array rounds)) \<and> rounds \<noteq> [] \<and>
         NullEntry \<notin> set rounds))"
proof (intro conjI)
  show "localStorage s STORAGE_KEY = None \<or>
    localStorage s STORAGE_KEY = Some EmptyString \<or>
    localStorage s STORAGE_KEY = Some NotJSON \<or>
    localStorage s STORAGE_KEY = Some (JSON NonArray) \<or>
    localStorage s STORAGE_KEY = Some (JSON (Array []))
      \<longrightarrow> loadRoundsFromStorage d s = (False, s)"
    by (auto simp: loadRoundsFromStorage_def loadBody_def)
  show "\<forall>e s'. loadBody d s = Inl (e, s') \<longrightarrow> loadRoundsFromStorage d s = (False, s')"
    by (simp add: loadRoundsFromStorage_def)
  show "fst (loadRoundsFromStorage d s) \<longleftrightarrow>
      (\<exists>rounds. localStorage s STORAGE_KEY = Some (JSON (Array rounds)) \<and> rounds \<noteq> [] \<and>
         NullEntry \<notin> set rounds)"
    by (rule load_true_iff)
qed

text \<open>
  The theorem with nothing stored, with text that is not JSON, and with an array whose
  second entry is \<^verbatim>\<open>null\<close>: there the body throws after it has cleared the table and
  built the first row, and the function returns false.
\<close>

theorem load_fails_closed_witness:
  "loadRoundsFromStorage exampleDom (freshPage [] Map.empty False) = (False, freshPage [] Map.empty False) \<and>
   loadRoundsFromStorage exampleDom (freshPage [] [STORAGE_KEY \<mapsto> NotJSON] False) =
     (False, freshPage [] [STORAGE_KEY \<mapsto> NotJSON] False) \<and>
   loadBody exampleDom
      (freshPage [exampleRow ''1'' ''Trivia'' ''1'' ''0'' False]
         [STORAGE_KEY \<mapsto> JSON (Array [RoundEntry exampleRound, NullEntry])] False) =
     Inl (TypeError,
       (freshPage [exampleRow ''1'' ''Trivia'' ''1'' ''0'' False]
         [STORAGE_KEY \<mapsto> JSON (Array [RoundEntry exampleRound, NullEntry])] False)
       \<lparr>tableRows := [rowOfRound exampleDom exampleRound]\<rparr>) \<and>
   loadRoundsFromStorage exampleDom
      (freshPage [exampleRow ''1'' ''Trivia'' ''1'' ''0'' False]
         [STORAGE_KEY \<mapsto> JSON (Array [RoundEntry exampleRound, NullEntry])] False) =
     (False,
       (freshPage [exampleRow ''1'' ''Trivia'' ''1'' ''0'' False]
         [STORAGE_KEY \<mapsto> JSON (Array [RoundEntry exampleRound, NullEntry])] False)
       \<lparr>tableRows := [rowOfRound exampleDom exampleRound]\<rparr>)"
proof -
  have body: "loadBody exampleDom
      (freshPage [exampleRow ''1'' ''Trivia'' ''1'' ''0'' False]
         [STORAGE_KEY \<mapsto> JSON (Array [RoundEntry exampleRound, NullEntry])] False) =
     Inl (TypeError,
       (freshPage [exampleRow ''1'' ''Trivia'' ''1'' ''0'' False]
         [STORAGE_KEY \<mapsto> JSON (Array [RoundEntry exampleRound, NullEntry])] False)
       \<lparr>tableRows := [rowOfRound exampleDom exampleRound]\<rparr>)"
    by (simp add: loadBody_def freshPage_def)
  from load_fails_closed [of "freshPage [] Map.empty False" exampleDom]
  have a: "loadRoundsFromStorage exampleDom (freshPage [] Map.empty False) = (False, freshPage [] Map.empty False)"
    by (simp add: freshPage_def)
  from load_fails_closed [of "freshPage [] [STORAGE_KEY \<mapsto> NotJSON] False" exampleDom]
  have b: "loadRoundsFromStorage exampleDom (freshPage [] [STORAGE_KEY \<mapsto> NotJSON] False) =
     (False, freshPage [] [STORAGE_KEY \<mapsto> NotJSON] False)"
    by (simp add: freshPage_def)
  from load_fails_closed [of "freshPage [exampleRow ''1'' ''Trivia'' ''1'' ''0'' False]
         [STORAGE_KEY \<mapsto> JSON (Array [RoundEntry exampleRound, NullEntry])] False" exampleDom] body
  have c: "loadRoundsFromStorage exampleDom
      (freshPage [exampleRow ''1'' ''Trivia'' ''1'' ''0'' False]
         [STORAGE_KEY \<mapsto> JSON (Array [RoundEntry exampleRound, NullEntry])] False) =
     (False,
       (freshPage [exampleRow ''1'' ''Trivia'' ''1'' ''0'' False]
         [STORAGE_KEY \<mapsto> JSON (Array [RoundEntry exampleRound, NullEntry])] False)
       \<lparr>tableRows := [rowOfRound exampleDom exampleRound]\<rparr>)"
    by blast
  from a b body c show ?thesis by blast
qed

section \<open>What is written to storage\<close>

text \<open>
  Claim C5, as amended. \<^verbatim>\<open>saveRoundsToStorage\<close> writes one key, \<^verbatim>\<open>gameNightRounds\<close>, and
  its value is the bare array of the round objects of the table; every other key of the
  storage is left as it was, and when the browser refuses the write nothing changes. No
  schema-version tag is written: \<^verbatim>\<open>STORAGE_SCHEMA_VERSION\<close> is declared and never used, so
  the storage holds a tag after a save only if it held one before.
\<close>

theorem save_writes_rounds_only:
  "(\<forall>k. k \<noteq> STORAGE_KEY \<longrightarrow> localStorage (saveRoundsToStorage s) k = localStorage s k) \<and>
   (\<not> quotaExceeded s \<longrightarrow>
      localStorage (saveRoundsToStorage s) STORAGE_KEY =
        Some (JSON (Array (map (\<lambda>r. RoundEntry (roundOfRow r)) (tableRows s))))) \<and>
   (quotaExceeded s \<longrightarrow> saveRoundsToStorage s = s) \<and>
   (spec_versionTagRecorded (localStorage (saveRoundsToStorage s)) \<longrightarrow>
      spec_versionTagRecorded (localStorage s))"
  by (auto simp: saveRoundsToStorage_def spec_versionTagRecorded_def comp_def)

text \<open>The theorem at a table of one round and an empty storage.\<close>

theorem save_writes_rounds_only_witness:
  "\<not> quotaExceeded (freshPage [exampleRow ''1'' ''Trivia'' ''1'' ''0'' False] Map.empty False) \<and>
   localStorage (saveRoundsToStorage (freshPage [exampleRow ''1'' ''Trivia'' ''1'' ''0'' False] Map.empty False))
     STORAGE_KEY =
     Some (JSON (Array [RoundEntry (roundOfRow (exampleRow ''1'' ''Trivia'' ''1'' ''0'' False))])) \<and>
   localStorage (saveRoundsToStorage (freshPage [exampleRow ''1'' ''Trivia'' ''1'' ''0'' False] Map.empty False))
     ''schemaVersion'' = None"
  using save_writes_rounds_only
    [of "freshPage [exampleRow ''1'' ''Trivia'' ''1'' ''0'' False] Map.empty False"]
  by (simp add: freshPage_def STORAGE_KEY_def)

text \<open>
  The claim as stated fails at that save: afterwards the storage holds the array under its
  key and nothing that could be a version tag.
\<close>

theorem save_version_tag_counterexample:
  "\<not> spec_versionTagRecorded
       (localStorage (saveRoundsToStorage
          (freshPage [exampleRow ''1'' ''Trivia'' ''1'' ''0'' False] Map.empty False)))"
  by (simp add: spec_versionTagRecorded_def saveRoundsToStorage_def freshPage_def)

section \<open>Rows and timers: how the primitive steps act\<close>

lemma queryRow_Cons [simp]:
  "queryRow k (r # rs) = (if selectsRow k r then Some r else queryRow k rs)"
  by (simp add: queryRow_def)

lemma queryRow_Nil [simp]: "queryRow k [] = None"
  by (simp add: queryRow_def)


lemma selectsRow_parse: "selectsRow k r \<Longrightarrow> parseInt (data_row_id r) = Some k"
  by (simp add: selectsRow_def)



lemma queryRow_append:
  "queryRow k (rs @ rs') = (case queryRow k rs of None \<Rightarrow> queryRow k rs' | Some r \<Rightarrow> Some r)"
  by (induction rs) auto

lemma length_updateRow [simp]: "length (updateRow k f rs) = length rs"
  by (induction rs) auto


lemma queryRow_updateRow:
  assumes "\<And>r. data_row_id (f r) = data_row_id r"
  shows "queryRow k' (updateRow k f rs) =
           (if k' = k then map_option f (queryRow k rs) else queryRow k' rs)"
  using assms by (induction rs) (auto simp: selectsRow_def)

lemma map_id_updateRow:
  assumes "\<And>r. data_row_id (f r) = data_row_id r"
  shows "map data_row_id (updateRow k f rs) = map data_row_id rs"
  using assms by (induction rs) auto

lemma map_field_updateRow:
  assumes "\<And>r. g (f r) = g r"
  shows "map g (updateRow k f rs) = map g rs"
  using assms by (induction rs) auto

lemma updateRow_updateRow:
  assumes "\<And>r. data_row_id (f r) = data_row_id r"
  shows "updateRow k g (updateRow k f rs) = updateRow k (g \<circ> f) rs"
  using assms by (induction rs) (auto simp: selectsRow_def)

lemma map_of_replaceEntry:
  "map_of (replaceEntry k v ts) k' =
     (if k' = k \<and> map_of ts k \<noteq> None then Some v else map_of ts k')"
  by (induction ts) auto

lemma map_of_insertIndexKey:
  "map_of ts k = None \<Longrightarrow> map_of (insertIndexKey k v ts) k' = (if k' = k then Some v else map_of ts k')"
  by (induction ts) (auto split: if_splits)

lemma map_of_setTimer [simp]:
  "map_of (setTimer k v ts) k' = (if k' = k then Some v else map_of ts k')"
proof (cases "map_of ts k")
  case None
  then show ?thesis
    by (auto simp: setTimer_def map_of_insertIndexKey map_add_def split: option.splits)
next
  case (Some t)
  then show ?thesis by (simp add: setTimer_def map_of_replaceEntry)
qed

lemma map_of_modifyTimer [simp]:
  "map_of (modifyTimer k f ts) k' = (if k' = k then map_option f (map_of ts k) else map_of ts k')"
  by (simp add: modifyTimer_def split: option.splits)

lemma map_of_deleteTimer [simp]:
  "map_of (deleteTimer k ts) k' = (if k' = k then None else map_of ts k')"
  by (induction ts) (auto simp: deleteTimer_def)

lemma map_of_clear [simp]:
  "map_of (filter (\<lambda>e. fst e \<noteq> h) es) h' = (if h' = h then None else map_of es h')"
  by (induction es) auto

lemma updateGlobalTimerDisplay_frame [simp]:
  "tableRows (updateGlobalTimerDisplay s) = tableRows s"
  "timers (updateGlobalTimerDisplay s) = timers s"
  "nextRowId (updateGlobalTimerDisplay s) = nextRowId s"
  "localStorage (updateGlobalTimerDisplay s) = localStorage s"
  "quotaExceeded (updateGlobalTimerDisplay s) = quotaExceeded s"
  "intervals (updateGlobalTimerDisplay s) = intervals s"
  "lastIntervalId (updateGlobalTimerDisplay s) = lastIntervalId s"
  "progressFillWidth (updateGlobalTimerDisplay s) = progressFillWidth s"
  "progressText (updateGlobalTimerDisplay s) = progressText s"
  "effects (updateGlobalTimerDisplay s) = effects s"
  by (simp_all add: updateGlobalTimerDisplay_def Let_def split: list.splits option.splits)

lemma updateTimerDisplay_frame [simp]:
  "timers (updateTimerDisplay k s) = timers s"
  "nextRowId (updateTimerDisplay k s) = nextRowId s"
  "localStorage (updateTimerDisplay k s) = localStorage s"
  "quotaExceeded (updateTimerDisplay k s) = quotaExceeded s"
  "intervals (updateTimerDisplay k s) = intervals s"
  "lastIntervalId (updateTimerDisplay k s) = lastIntervalId s"
  "progressFillWidth (updateTimerDisplay k s) = progressFillWidth s"
  "progressText (updateTimerDisplay k s) = progressText s"
  "effects (updateTimerDisplay k s) = effects s"
  "activeTimerText (updateTimerDisplay k s) = activeTimerText s"
  "activeTimerColor (updateTimerDisplay k s) = activeTimerColor s"
  by (simp_all add: updateTimerDisplay_def split: option.splits)


lemma clearInterval_frame [simp]:
  "tableRows (clearInterval h s) = tableRows s"
  "timers (clearInterval h s) = timers s"
  "nextRowId (clearInterval h s) = nextRowId s"
  "localStorage (clearInterval h s) = localStorage s"
  "quotaExceeded (clearInterval h s) = quotaExceeded s"
  "intervals (clearInterval h s) = filter (\<lambda>e. fst e \<noteq> h) (intervals s)"
  "lastIntervalId (clearInterval h s) = lastIntervalId s"
  "progressFillWidth (clearInterval h s) = progressFillWidth s"
  "progressText (clearInterval h s) = progressText s"
  "effects (clearInterval h s) = effects s"
  "activeTimerText (clearInterval h s) = activeTimerText s"
  "activeTimerColor (clearInterval h s) = activeTimerColor s"
  by (simp_all add: clearInterval_def)

lemma clearTimerInterval_frame [simp]:
  "tableRows (clearTimerInterval k s) = tableRows s"
  "nextRowId (clearTimerInterval k s) = nextRowId s"
  "localStorage (clearTimerInterval k s) = localStorage s"
  "quotaExceeded (clearTimerInterval k s) = quotaExceeded s"
  "lastIntervalId (clearTimerInterval k s) = lastIntervalId s"
  "progressFillWidth (clearTimerInterval k s) = progressFillWidth s"
  "progressText (clearTimerInterval k s) = progressText s"
  "effects (clearTimerInterval k s) = effects s"
  "activeTimerText (clearTimerInterval k s) = activeTimerText s"
  "activeTimerColor (clearTimerInterval k s) = activeTimerColor s"
  by (simp_all add: clearTimerInterval_def split: option.splits)

lemma clearIfRunning_frame [simp]:
  "tableRows (clearIfRunning k s) = tableRows s"
  "timers (clearIfRunning k s) = timers s"
  "nextRowId (clearIfRunning k s) = nextRowId s"
  "localStorage (clearIfRunning k s) = localStorage s"
  "quotaExceeded (clearIfRunning k s) = quotaExceeded s"
  "lastIntervalId (clearIfRunning k s) = lastIntervalId s"
  "progressFillWidth (clearIfRunning k s) = progressFillWidth s"
  "progressText (clearIfRunning k s) = progressText s"
  "effects (clearIfRunning k s) = effects s"
  "activeTimerText (clearIfRunning k s) = activeTimerText s"
  "activeTimerColor (clearIfRunning k s) = activeTimerColor s"
  by (simp_all add: clearIfRunning_def split: option.splits)

lemma updateProgress_frame [simp]:
  "tableRows (updateProgress s) = tableRows s"
  "timers (updateProgress s) = timers s"
  "nextRowId (updateProgress s) = nextRowId s"
  "localStorage (updateProgress s) = localStorage s"
  "quotaExceeded (updateProgress s) = quotaExceeded s"
  "intervals (updateProgress s) = intervals s"
  "lastIntervalId (updateProgress s) = lastIntervalId s"
  "activeTimerText (updateProgress s) = activeTimerText s"
  "activeTimerColor (updateProgress s) = activeTimerColor s"
  by (simp_all add: updateProgress_def Let_def)

lemma saveRoundsToStorage_frame [simp]:
  "tableRows (saveRoundsToStorage s) = tableRows s"
  "timers (saveRoundsToStorage s) = timers s"
  "nextRowId (saveRoundsToStorage s) = nextRowId s"
  "quotaExceeded (saveRoundsToStorage s) = quotaExceeded s"
  "intervals (saveRoundsToStorage s) = intervals s"
  "lastIntervalId (saveRoundsToStorage s) = lastIntervalId s"
  "progressFillWidth (saveRoundsToStorage s) = progressFillWidth s"
  "progressText (saveRoundsToStorage s) = progressText s"
  "effects (saveRoundsToStorage s) = effects s"
  "activeTimerText (saveRoundsToStorage s) = activeTimerText s"
  "activeTimerColor (saveRoundsToStorage s) = activeTimerColor s"
  by (simp_all add: saveRoundsToStorage_def Let_def)

lemma scrollToNextUnchecked_frame [simp]:
  "tableRows (scrollToNextUnchecked k s) = tableRows s"
  "timers (scrollToNextUnchecked k s) = timers s"
  "nextRowId (scrollToNextUnchecked k s) = nextRowId s"
  "localStorage (scrollToNextUnchecked k s) = localStorage s"
  "quotaExceeded (scrollToNextUnchecked k s) = quotaExceeded s"
  "intervals (scrollToNextUnchecked k s) = intervals s"
  "lastIntervalId (scrollToNextUnchecked k s) = lastIntervalId s"
  "progressFillWidth (scrollToNextUnchecked k s) = progressFillWidth s"
  "progressText (scrollToNextUnchecked k s) = progressText s"
  "activeTimerText (scrollToNextUnchecked k s) = activeTimerText s"
  "activeTimerColor (scrollToNextUnchecked k s) = activeTimerColor s"
  by (simp_all add: scrollToNextUnchecked_def split: option.splits)




section \<open>The countdown\<close>







lemma lastIntervalId_pauseTimer [simp]: "lastIntervalId (pauseTimer k s) = lastIntervalId s"
  by (simp add: pauseTimer_def Let_def split: option.splits)



section \<open>Progress and celebration\<close>

lemma celebrations_updateProgress:
  "celebrations (updateProgress s) =
     celebrations s + (if fullyComplete (tableRows s) then 1 else 0)"
  by (simp add: celebrations_def updateProgress_def fullyComplete_def Let_def)

lemma celebrations_frame [simp]:
  "celebrations (updateGlobalTimerDisplay s) = celebrations s"
  "celebrations (updateTimerDisplay k s) = celebrations s"
  "celebrations (saveRoundsToStorage s) = celebrations s"
  "celebrations (clearTimerInterval k s) = celebrations s"
  "celebrations (clearIfRunning k s) = celebrations s"
  "celebrations (scrollToNextUnchecked k s) = celebrations s"
  by (simp_all add: celebrations_def scrollToNextUnchecked_def split: option.splits)

lemma celebrations_updates [simp]:
  "celebrations (s\<lparr>tableRows := rs\<rparr>) = celebrations s"
  "celebrations (s\<lparr>timers := ts\<rparr>) = celebrations s"
  "celebrations (s\<lparr>intervals := is\<rparr>) = celebrations s"
  "celebrations (s\<lparr>lastIntervalId := h\<rparr>) = celebrations s"
  "celebrations (s\<lparr>nextRowId := n\<rparr>) = celebrations s"
  "celebrations (s\<lparr>localStorage := st\<rparr>) = celebrations s"
  "celebrations (s\<lparr>effects := effects s @ [Alert a]\<rparr>) = celebrations s"
  "celebrations (s\<lparr>effects := effects s @ [ScrollIntoView a]\<rparr>) = celebrations s"
  "celebrations (s\<lparr>effects := effects s @ [PlayTimerSound]\<rparr>) = celebrations s"
  by (simp_all add: celebrations_def)

lemma celebrations_timerFinished [simp]: "celebrations (timerFinished k s) = celebrations s"
  by (simp add: timerFinished_def Let_def celebrations_def split: option.splits)

lemma celebrations_pauseTimer [simp]: "celebrations (pauseTimer k s) = celebrations s"
  by (simp add: pauseTimer_def Let_def split: option.splits)

lemma celebrations_resetTimer [simp]: "celebrations (resetTimer k s) = celebrations s"
  by (simp add: resetTimer_def Let_def split: option.splits)

lemma celebrations_startTimer [simp]: "celebrations (startTimer k s) = celebrations s"
  by (simp add: startTimer_def Let_def celebrations_def split: option.splits)

lemma celebrations_tick [simp]: "celebrations (tick h s) = celebrations s"
  by (simp add: tick_def intervalCallback_def Let_def split: option.splits)

lemma celebrations_moveRow [simp]:
  "celebrations (moveRowUp k s) = celebrations s"
  "celebrations (moveRowDown k s) = celebrations s"
  by (simp_all add: moveRowUp_def moveRowDown_def split: option.splits)

lemma celebrations_clearSavedRounds [simp]:
  "celebrations (clearSavedRounds c s) = celebrations s"
  by (simp add: clearSavedRounds_def celebrations_def)

lemma tableRows_pauseTimer_checked:
  "map done_checkbox (tableRows (pauseTimer k s)) = map done_checkbox (tableRows s)"
  by (simp add: pauseTimer_def Let_def map_field_updateRow split: option.splits)

lemma fullyComplete_map:
  assumes m: "map done_checkbox rs = map done_checkbox rs'"
  shows "fullyComplete rs = fullyComplete rs'"
proof -
  from m have len: "length rs = length rs'" by (rule map_eq_imp_length_eq)
  from len m have "length (filter done_checkbox rs) = length (filter done_checkbox rs')"
    by (induction rs rs' rule: list_induct2) auto
  with len show ?thesis by (simp add: fullyComplete_def)
qed

lemma celebrations_deleteRow:
  "celebrations (deleteRow k c s) =
     celebrations s + (if c \<and> fullyComplete (tableRows (deleteRow k c s)) then 1 else 0)"
  by (simp add: deleteRow_def Let_def celebrations_updateProgress split: option.splits)

lemma celebrations_toggleDone:
  "celebrations (toggleDone k c s) =
     celebrations s +
     (if queryRow k (tableRows s) \<noteq> None \<and> fullyComplete (tableRows (toggleDone k c s))
      then 1 else 0)"
  by (auto simp: toggleDone_def Let_def celebrations_updateProgress split: option.splits)

lemma celebrations_clickDone:
  "celebrations (clickDone k s) =
     celebrations s +
     (if queryRow k (tableRows s) \<noteq> None \<and> fullyComplete (tableRows (clickDone k s))
      then 1 else 0)"
  by (auto simp: clickDone_def celebrations_toggleDone queryRow_updateRow split: option.splits)

lemma selectsRow_addedRow [simp]: "selectsRow k (addedRow d f k)"
  by (simp add: selectsRow_def addedRow_def newRow_def)

lemma addNewRound_invalid:
  "\<not> formIsValid f \<Longrightarrow>
     \<exists>a. addNewRound d f s = s\<lparr>effects := effects s @ [Alert a]\<rparr>"
  by (auto simp: addNewRound_def formIsValid_def Let_def)

lemma addNewRound_valid:
  assumes "formIsValid f"
  shows "\<exists>a. addNewRound d f s =
     (saveRoundsToStorage (updateProgress
        (s\<lparr>nextRowId := nextRowId s + 1,
           tableRows := tableRows s @ [addedRow d f (nextRowId s)]\<rparr>)))
     \<lparr>effects := effects (updateProgress
        (s\<lparr>nextRowId := nextRowId s + 1,
           tableRows := tableRows s @ [addedRow d f (nextRowId s)]\<rparr>)) @ [ScrollIntoView a]\<rparr>"
proof -
  have "queryRow (nextRowId s) (tableRows s @ [addedRow d f (nextRowId s)]) \<noteq> None"
    by (simp add: queryRow_append split: option.splits)
  then obtain r where
    r: "queryRow (nextRowId s) (tableRows s @ [addedRow d f (nextRowId s)]) = Some r"
    by blast
  with assms show ?thesis
    unfolding addNewRound_def formIsValid_def Let_def addedRow_def [symmetric]
    by (auto simp: addedRow_def [symmetric])
qed

lemma celebrations_effects [simp]:
  "celebrations (s\<lparr>effects := es @ [ScrollIntoView a]\<rparr>) = count_list es CelebrateCompletion"
  "celebrations (s\<lparr>effects := es @ [Alert a]\<rparr>) = count_list es CelebrateCompletion"
  by (simp_all add: celebrations_def)

lemma celebrations_addNewRound:
  "celebrations (addNewRound d f s) =
     celebrations s +
     (if formIsValid f \<and> fullyComplete (tableRows (addNewRound d f s)) then 1 else 0)"
proof (cases "formIsValid f")
  case False
  from addNewRound_invalid [OF this, of d s] obtain a
    where "addNewRound d f s = s\<lparr>effects := effects s @ [Alert a]\<rparr>" by blast
  with False show ?thesis by (simp add: celebrations_def)
next
  case True
  let ?s1 = "s\<lparr>nextRowId := nextRowId s + 1,
           tableRows := tableRows s @ [addedRow d f (nextRowId s)]\<rparr>"
  from addNewRound_valid [OF True, of d s] obtain a
    where a: "addNewRound d f s =
      (saveRoundsToStorage (updateProgress ?s1))
        \<lparr>effects := effects (updateProgress ?s1) @ [ScrollIntoView a]\<rparr>" by blast
  have "celebrations (addNewRound d f s) = celebrations (updateProgress ?s1)"
    unfolding a by (simp add: celebrations_def)
  also have "\<dots> = celebrations s + (if fullyComplete (tableRows ?s1) then 1 else 0)"
    by (simp add: celebrations_updateProgress)
  finally show ?thesis using True by (simp add: a)
qed

text \<open>
  Claim C6, as amended. \<^verbatim>\<open>updateProgress\<close> calls \<^verbatim>\<open>celebrateCompletion\<close> whenever the table
  it reads is fully complete, and keeps no memory of an earlier call. So an event
  triggers the celebration exactly once if its handler recomputes the progress (a
  confirmed delete, a valid add, a click on a checkbox) and the table it leaves is fully
  complete, and not otherwise; whether the table was fully complete before plays no part.
\<close>

theorem celebration_on_every_recompute:
  "celebrations (updateProgress s) =
     celebrations s + (if fullyComplete (tableRows s) then 1 else 0) \<and>
   celebrations (fire d s e) =
     celebrations s +
     (if recomputesProgress e s \<and> fullyComplete (tableRows (fire d s e)) then 1 else 0)"
proof
  show "celebrations (updateProgress s) =
     celebrations s + (if fullyComplete (tableRows s) then 1 else 0)"
    by (rule celebrations_updateProgress)
  show "celebrations (fire d s e) =
     celebrations s +
     (if recomputesProgress e s \<and> fullyComplete (tableRows (fire d s e)) then 1 else 0)"
    by (cases e)
       (simp_all add: celebrations_deleteRow celebrations_clickDone celebrations_addNewRound)
qed

text \<open>The theorem at a click that completes the second of two rounds.\<close>

theorem celebration_on_every_recompute_witness:
  "celebrations (fire exampleDom
      (freshPage [exampleRow ''1'' ''Trivia'' ''1'' ''0'' True,
                  exampleRow ''2'' ''Charades'' ''0'' ''45'' False] Map.empty False)
      (ClickDone 2)) =
   celebrations
      (freshPage [exampleRow ''1'' ''Trivia'' ''1'' ''0'' True,
                  exampleRow ''2'' ''Charades'' ''0'' ''45'' False] Map.empty False) + 1"
proof -
  let ?s = "freshPage [exampleRow ''1'' ''Trivia'' ''1'' ''0'' True,
                  exampleRow ''2'' ''Charades'' ''0'' ''45'' False] Map.empty False"
  have two: "numberToString 2 = ''2''"
    by (simp add: numberToString_def natToString.simps digitChar_def)
  have rows: "tableRows (fire exampleDom ?s (ClickDone 2)) =
      [exampleRow ''1'' ''Trivia'' ''1'' ''0'' True,
       (exampleRow ''2'' ''Charades'' ''0'' ''45'' False)
         \<lparr>done_checkbox := True, row_classes := {Completed}\<rparr>]"
    by (simp add: freshPage_def exampleRow_def clickDone_def toggleDone_def selectsRow_def two
        pauseTimer_def)
  have q: "queryRow 2 (tableRows ?s) \<noteq> None"
    by (simp add: freshPage_def exampleRow_def selectsRow_def two)
  have full: "fullyComplete (tableRows (fire exampleDom ?s (ClickDone 2)))"
    unfolding rows by (simp add: fullyComplete_def exampleRow_def)
  from celebration_on_every_recompute [of ?s exampleDom "ClickDone 2"] q full
  show ?thesis by simp
qed

text \<open>
  The claim as stated fails where a round is deleted from a table that is fully complete
  already: the page opens with two completed rounds (and celebrates), the second round is
  deleted, the table was and is fully complete, and the celebration is triggered again.
\<close>

theorem celebration_repeats_counterexample:
  "fullyComplete (tableRows
      (openPage exampleDom
         [exampleRow ''1'' ''Trivia'' ''1'' ''0'' True,
          exampleRow ''2'' ''Charades'' ''0'' ''45'' True] Map.empty False)) \<and>
   fullyComplete (tableRows
      (fire exampleDom
         (openPage exampleDom
            [exampleRow ''1'' ''Trivia'' ''1'' ''0'' True,
             exampleRow ''2'' ''Charades'' ''0'' ''45'' True] Map.empty False)
         (Delete 2 True))) \<and>
   celebrations
      (fire exampleDom
         (openPage exampleDom
            [exampleRow ''1'' ''Trivia'' ''1'' ''0'' True,
             exampleRow ''2'' ''Charades'' ''0'' ''45'' True] Map.empty False)
         (Delete 2 True)) =
   celebrations
      (openPage exampleDom
         [exampleRow ''1'' ''Trivia'' ''1'' ''0'' True,
          exampleRow ''2'' ''Charades'' ''0'' ''45'' True] Map.empty False) + 1"
proof -
  let ?s = "openPage exampleDom
         [exampleRow ''1'' ''Trivia'' ''1'' ''0'' True,
          exampleRow ''2'' ''Charades'' ''0'' ''45'' True] Map.empty False"
  have two: "numberToString 2 = ''2''"
    by (simp add: numberToString_def natToString.simps digitChar_def)
  have rows: "tableRows ?s = [exampleRow ''1'' ''Trivia'' ''1'' ''0'' True,
          exampleRow ''2'' ''Charades'' ''0'' ''45'' True]"
    by (simp add: openPage_def initialise_def loadRoundsFromStorage_def loadBody_def freshPage_def)
  have timers: "timers ?s = []"
    by (simp add: openPage_def initialise_def loadRoundsFromStorage_def loadBody_def freshPage_def)
  have rows': "tableRows (fire exampleDom ?s (Delete 2 True)) =
      [exampleRow ''1'' ''Trivia'' ''1'' ''0'' True]"
    by (simp add: deleteRow_def rows timers Let_def) (simp add: exampleRow_def selectsRow_def two)
  have cel: "celebrations (fire exampleDom ?s (Delete 2 True)) = celebrations ?s + 1"
    by (simp add: deleteRow_def rows timers Let_def celebrations_updateProgress)
       (simp add: exampleRow_def selectsRow_def two fullyComplete_def)
  show ?thesis
    unfolding rows' cel unfolding rows by (simp add: fullyComplete_def exampleRow_def)
qed

section \<open>Unchecking a round\<close>

lemma uncheck_leaves_one:
  assumes "queryRow k rs = Some r" and "\<And>r. \<not> done_checkbox (f r)"
  shows "length (filter done_checkbox (updateRow k f rs)) < length rs"
  using assms
proof (induction rs)
  case Nil
  then show ?case by simp
next
  case (Cons a rs)
  show ?case
  proof (cases "selectsRow k a")
    case True
    with Cons.prems(2) [of a] have "length (filter done_checkbox (updateRow k f (a # rs))) =
        length (filter done_checkbox rs)" by simp
    also have "\<dots> \<le> length rs" by simp
    finally show ?thesis by simp
  next
    case False
    with Cons show ?thesis by (auto simp: less_Suc_eq)
  qed
qed

lemma updateRow_cong_first:
  assumes "queryRow k rs = Some r" and "f r = g r"
  shows "updateRow k f rs = updateRow k g rs"
  using assms by (induction rs) (auto split: if_splits)

text \<open>
  Claim C10. A click on the checkbox of a row that exists recomputes the progress bar
  from the table it leaves and writes that table to storage (unless the browser refuses
  the write), whichever way the checkbox goes. When the checkbox was checked, the click
  changes the page no further than this: the checkbox of that row is unchecked and its
  class \<^verbatim>\<open>completed\<close> removed, every other row is as it was, and so are the timers, the
  intervals, the id counter, the header's timer display and the list of effects: no
  scroll to a next round, no timer paused.
\<close>

theorem uncheck_changes_only_the_flag:
  assumes "queryRow rowId (tableRows s) = Some r"
  shows "let s' = clickDone rowId s
         in progressFillWidth s' = percentageOf (tableRows s') \<and>
            localStorage s' =
              (if quotaExceeded s then localStorage s
               else (localStorage s)
                 (STORAGE_KEY \<mapsto> JSON (Array (map (\<lambda>r. RoundEntry (roundOfRow r)) (tableRows s'))))) \<and>
            (done_checkbox r \<longrightarrow>
               tableRows s' =
                 updateRow rowId
                   (\<lambda>r. r\<lparr>done_checkbox := False, row_classes := row_classes r - {Completed}\<rparr>)
                   (tableRows s) \<and>
               timers s' = timers s \<and>
               intervals s' = intervals s \<and>
               effects s' = effects s \<and>
               nextRowId s' = nextRowId s \<and>
               activeTimerText s' = activeTimerText s \<and>
               activeTimerColor s' = activeTimerColor s \<and>
               progressText s' =
                 numberToString (int (length (filter done_checkbox (tableRows s')))) @ '' of '' @
                 numberToString (int (length (tableRows s'))) @ '' rounds completed'')"
proof -
  let ?f = "\<lambda>r. r\<lparr>done_checkbox := \<not> done_checkbox r\<rparr>"
  let ?s0 = "s\<lparr>tableRows := updateRow rowId ?f (tableRows s)\<rparr>"
  have q: "queryRow rowId (tableRows ?s0) = Some (?f r)"
    using assms by (simp add: queryRow_updateRow)
  have progress: "progressFillWidth (clickDone rowId s) = percentageOf (tableRows (clickDone rowId s))"
    using assms q
    by (simp add: clickDone_def toggleDone_def Let_def)
       (simp add: updateProgress_def percentageOf_def Let_def)
  have store: "localStorage (clickDone rowId s) =
      (if quotaExceeded s then localStorage s
       else (localStorage s)
         (STORAGE_KEY \<mapsto> JSON (Array (map (\<lambda>r. RoundEntry (roundOfRow r)) (tableRows (clickDone rowId s))))))"
    using assms q
    by (simp add: clickDone_def toggleDone_def Let_def)
       (simp add: saveRoundsToStorage_def Let_def comp_def pauseTimer_def split: option.splits)
  have frame: "tableRows (clickDone rowId s) =
                 updateRow rowId
                   (\<lambda>r. r\<lparr>done_checkbox := False, row_classes := row_classes r - {Completed}\<rparr>)
                   (tableRows s) \<and>
               timers (clickDone rowId s) = timers s \<and>
               intervals (clickDone rowId s) = intervals s \<and>
               effects (clickDone rowId s) = effects s \<and>
               nextRowId (clickDone rowId s) = nextRowId s \<and>
               activeTimerText (clickDone rowId s) = activeTimerText s \<and>
               activeTimerColor (clickDone rowId s) = activeTimerColor s \<and>
               progressText (clickDone rowId s) =
                 numberToString (int (length (filter done_checkbox (tableRows (clickDone rowId s))))) @ '' of '' @
                 numberToString (int (length (tableRows (clickDone rowId s)))) @ '' rounds completed''"
    if d: "done_checkbox r"
  proof -
    let ?g = "\<lambda>r. r\<lparr>done_checkbox := False, row_classes := row_classes r - {Completed}\<rparr>"
    have "updateRow rowId (\<lambda>r. r\<lparr>row_classes := row_classes r - {Completed}\<rparr>)
        (updateRow rowId ?f (tableRows s)) =
      updateRow rowId
        ((\<lambda>r. r\<lparr>row_classes := row_classes r - {Completed}\<rparr>) \<circ> ?f) (tableRows s)"
      by (simp add: updateRow_updateRow)
    also have "\<dots> = updateRow rowId ?g (tableRows s)"
      using assms d by (intro updateRow_cong_first [where r = r]) simp_all
    finally have upd: "updateRow rowId (\<lambda>r. r\<lparr>row_classes := row_classes r - {Completed}\<rparr>)
        (updateRow rowId ?f (tableRows s)) = updateRow rowId ?g (tableRows s)" .
    have less: "length (filter done_checkbox (updateRow rowId ?g (tableRows s))) <
        length (tableRows s)"
      using assms by (rule uncheck_leaves_one) simp
    have click: "clickDone rowId s =
        saveRoundsToStorage (updateProgress (s\<lparr>tableRows := updateRow rowId ?g (tableRows s)\<rparr>))"
      using assms q d by (simp add: clickDone_def toggleDone_def Let_def upd)
    show ?thesis
      unfolding click using less
      by (simp add: updateProgress_def Let_def)
  qed
  from progress store frame show ?thesis by (simp add: Let_def)
qed

text \<open>The theorem at two completed rounds, the timer of the first one running.\<close>

theorem uncheck_changes_only_the_flag_witness:
  "tableRows (clickDone 1
      ((freshPage [exampleRow ''1'' ''Trivia'' ''1'' ''0'' True,
                   exampleRow ''2'' ''Charades'' ''0'' ''45'' True] Map.empty False)
         \<lparr>timers := [(1, \<lparr>intervalId = Some 1, remainingSeconds = 60, isRunning = True\<rparr>)],
          intervals := [(1, 1)], lastIntervalId := 1\<rparr>)) =
     [(exampleRow ''1'' ''Trivia'' ''1'' ''0'' True)\<lparr>done_checkbox := False, row_classes := {}\<rparr>,
      exampleRow ''2'' ''Charades'' ''0'' ''45'' True] \<and>
   timers (clickDone 1
      ((freshPage [exampleRow ''1'' ''Trivia'' ''1'' ''0'' True,
                   exampleRow ''2'' ''Charades'' ''0'' ''45'' True] Map.empty False)
         \<lparr>timers := [(1, \<lparr>intervalId = Some 1, remainingSeconds = 60, isRunning = True\<rparr>)],
          intervals := [(1, 1)], lastIntervalId := 1\<rparr>)) =
     [(1, \<lparr>intervalId = Some 1, remainingSeconds = 60, isRunning = True\<rparr>)] \<and>
   effects (clickDone 1
      ((freshPage [exampleRow ''1'' ''Trivia'' ''1'' ''0'' True,
                   exampleRow ''2'' ''Charades'' ''0'' ''45'' True] Map.empty False)
         \<lparr>timers := [(1, \<lparr>intervalId = Some 1, remainingSeconds = 60, isRunning = True\<rparr>)],
          intervals := [(1, 1)], lastIntervalId := 1\<rparr>)) = []"
proof -
  let ?r = "exampleRow ''1'' ''Trivia'' ''1'' ''0'' True"
  let ?s = "(freshPage [?r, exampleRow ''2'' ''Charades'' ''0'' ''45'' True] Map.empty False)
         \<lparr>timers := [(1, \<lparr>intervalId = Some 1, remainingSeconds = 60, isRunning = True\<rparr>)],
          intervals := [(1, 1)], lastIntervalId := 1\<rparr>"
  have one: "numberToString 1 = ''1''"
    by (simp add: numberToString_def natToString.simps digitChar_def)
  have q: "queryRow 1 (tableRows ?s) = Some ?r"
    by (simp add: freshPage_def exampleRow_def selectsRow_def one)
  have d: "done_checkbox ?r" by (simp add: exampleRow_def)
  have rows: "updateRow 1
      (\<lambda>r. r\<lparr>done_checkbox := False, row_classes := row_classes r - {Completed}\<rparr>)
      (tableRows ?s) =
     [?r\<lparr>done_checkbox := False, row_classes := {}\<rparr>,
      exampleRow ''2'' ''Charades'' ''0'' ''45'' True]"
    by (simp add: freshPage_def exampleRow_def selectsRow_def one)
  have fields: "timers ?s = [(1, \<lparr>intervalId = Some 1, remainingSeconds = 60, isRunning = True\<rparr>)]"
    "effects ?s = []"
    by (simp_all add: freshPage_def)
  note th = uncheck_changes_only_the_flag [OF q, unfolded Let_def]
  from th d have "tableRows (clickDone 1 ?s) =
      updateRow 1 (\<lambda>r. r\<lparr>done_checkbox := False, row_classes := row_classes r - {Completed}\<rparr>)
        (tableRows ?s)"
    and "timers (clickDone 1 ?s) = timers ?s" and "effects (clickDone 1 ?s) = effects ?s"
    by blast+
  then show ?thesis
    unfolding rows fields by blast
qed

section \<open>The order of the entries of \<open>timers\<close>\<close>

lemma entriesOrdered_Nil [simp]: "entriesOrdered []"
  by (simp add: entriesOrdered_def)

lemma entriesOrdered_Cons:
  "entriesOrdered (e # es) \<longleftrightarrow> (\<forall>x \<in> set es. keyBefore (fst e) (fst x)) \<and> entriesOrdered es"
  by (auto simp: entriesOrdered_def)

lemma set_replaceEntry_keys: "map fst (replaceEntry k v ts) = map fst ts"
  by (induction ts) auto

lemma entriesOrdered_replaceEntry:
  "entriesOrdered ts \<Longrightarrow> entriesOrdered (replaceEntry k v ts)"
  by (simp add: entriesOrdered_def set_replaceEntry_keys)

lemma set_insertIndexKey: "set (insertIndexKey k v ts) = insert (k, v) (set ts)"
  by (induction ts) auto

lemma entriesOrdered_insertIndexKey:
  assumes "entriesOrdered ts" and "isArrayIndex k" and "k \<notin> fst ` set ts"
  shows "entriesOrdered (insertIndexKey k v ts)"
  using assms
proof (induction ts)
  case Nil
  then show ?case by (simp add: entriesOrdered_def)
next
  case (Cons e es)
  show ?case
  proof (cases "isArrayIndex (fst e) \<and> fst e < k")
    case True
    with Cons have "entriesOrdered (insertIndexKey k v es)" by (simp add: entriesOrdered_Cons)
    moreover have "\<forall>x \<in> set (insertIndexKey k v es). keyBefore (fst e) (fst x)"
      using Cons.prems True by (auto simp: set_insertIndexKey entriesOrdered_Cons keyBefore_def)
    ultimately show ?thesis using True by (simp add: entriesOrdered_Cons)
  next
    case False
    have e: "keyBefore k (fst e)"
      using False Cons.prems by (auto simp: keyBefore_def)
    have "keyBefore k (fst x)" if "x \<in> set es" for x
    proof -
      from Cons.prems(1) that have b: "keyBefore (fst e) (fst x)" by (simp add: entriesOrdered_Cons)
      from Cons.prems(3) that have ne: "k \<noteq> fst x" by auto
      show ?thesis
      proof (cases "isArrayIndex (fst x)")
        case True
        with b have "isArrayIndex (fst e)" "fst e < fst x" by (auto simp: keyBefore_def)
        with False have "k \<le> fst e" by simp
        with \<open>fst e < fst x\<close> Cons.prems(2) True ne show ?thesis by (simp add: keyBefore_def)
      next
        case False
        with ne show ?thesis by (simp add: keyBefore_def)
      qed
    qed
    with e Cons.prems(1) False show ?thesis by (auto simp: entriesOrdered_Cons)
  qed
qed

lemma entriesOrdered_append_other:
  assumes "entriesOrdered ts" and "\<not> isArrayIndex k" and "k \<notin> fst ` set ts"
  shows "entriesOrdered (ts @ [(k, v)])"
  using assms by (auto simp: entriesOrdered_def sorted_wrt_append keyBefore_def)

lemma map_of_None_keys: "map_of ts k = None \<longleftrightarrow> k \<notin> fst ` set ts"
  by (simp add: map_of_eq_None_iff)

lemma entriesOrdered_setTimer [simp]:
  "entriesOrdered ts \<Longrightarrow> entriesOrdered (setTimer k v ts)"
  by (auto simp: setTimer_def entriesOrdered_replaceEntry entriesOrdered_insertIndexKey
      entriesOrdered_append_other map_of_None_keys)

lemma entriesOrdered_modifyTimer [simp]:
  "entriesOrdered ts \<Longrightarrow> entriesOrdered (modifyTimer k f ts)"
  by (simp add: modifyTimer_def split: option.splits)

lemma entriesOrdered_filter: "entriesOrdered ts \<Longrightarrow> entriesOrdered (filter P ts)"
  by (induction ts) (auto simp: entriesOrdered_Cons)

lemma entriesOrdered_deleteTimer [simp]:
  "entriesOrdered ts \<Longrightarrow> entriesOrdered (deleteTimer k ts)"
  by (simp add: deleteTimer_def entriesOrdered_filter)


section \<open>Timers and intervals stay consistent\<close>







lemma rowExists_updateRow:
  assumes "\<And>r. data_row_id (f r) = data_row_id r"
  shows "queryRow k' (updateRow k f rs) = None \<longleftrightarrow> queryRow k' rs = None"
  using assms by (simp add: queryRow_updateRow)


section \<open>What each handler does\<close>

lemma display_functions_id [simp]:
  "data_row_id (tickDisplay n r) = data_row_id r"
  "data_row_id (startDisplay n r) = data_row_id r"
  "data_row_id (resetDisplay r) = data_row_id r"
  "data_row_id (pauseDisplay r) = data_row_id r"
  by (simp_all add: tickDisplay_def startDisplay_def resetDisplay_def pauseDisplay_def)

lemma updateRow_ext:
  "(\<And>r. f r = g r) \<Longrightarrow> updateRow k f rs = updateRow k g rs"
  by (induction rs) auto

lemma tableRows_pauseTimer:
  assumes "map_of (timers s) k = Some t" and "queryRow k (tableRows s) = Some r"
  shows "tableRows (pauseTimer k s) = updateRow k pauseDisplay (tableRows s)"
  using assms
  by (simp add: pauseTimer_def Let_def pauseDisplay_def [abs_def])




lemma intervalCallback_absent: "map_of (timers s) k = None \<Longrightarrow> intervalCallback k s = s"
  by (simp add: intervalCallback_def)







lemma deleteRow_effect:
  "map_of (timers (deleteRow k True s)) k' = (if k' = k then None else map_of (timers s) k')"
  "intervals (deleteRow k True s) = intervals (clearIfRunning k s)"
  "tableRows (deleteRow k True s) = removeRow k (tableRows s)"
  "entriesOrdered (timers s) \<Longrightarrow> entriesOrdered (timers (deleteRow k True s))"
  "nextRowId (deleteRow k True s) = nextRowId s"
  "lastIntervalId (deleteRow k True s) = lastIntervalId s"
  "deleteRow k False s = s"
  by (auto simp: deleteRow_def Let_def clearIfRunning_def split: option.splits)


lemma rowIndex_less: "rowIndex k rs = Some i \<Longrightarrow> i < length rs"
proof -
  assume a: "rowIndex k rs = Some i"
  then have ex: "\<exists>r \<in> set rs. selectsRow k r"
    and i: "i = length (takeWhile (\<lambda>r. \<not> selectsRow k r) rs)"
    by (auto simp: rowIndex_def split: if_splits)
  from ex have "length (takeWhile (\<lambda>r. \<not> selectsRow k r) rs) < length rs"
    by (induction rs) auto
  with i show ?thesis by simp
qed

lemma set_swapWithNext: "i + 1 < length rs \<Longrightarrow> set (swapWithNext i rs) = set rs"
proof -
  assume a: "i + 1 < length rs"
  then have "i < length rs" by simp
  from set_swap [OF this a] show ?thesis by (simp add: swapWithNext_def)
qed

lemma moveRow_effect:
  "timers (moveRowUp k s) = timers s"
  "intervals (moveRowUp k s) = intervals s"
  "nextRowId (moveRowUp k s) = nextRowId s"
  "lastIntervalId (moveRowUp k s) = lastIntervalId s"
  "set (tableRows (moveRowUp k s)) = set (tableRows s)"
  "timers (moveRowDown k s) = timers s"
  "intervals (moveRowDown k s) = intervals s"
  "nextRowId (moveRowDown k s) = nextRowId s"
  "lastIntervalId (moveRowDown k s) = lastIntervalId s"
  "set (tableRows (moveRowDown k s)) = set (tableRows s)"
proof -
  show "set (tableRows (moveRowUp k s)) = set (tableRows s)"
  proof (cases "rowIndex k (tableRows s)")
    case None
    then show ?thesis by (simp add: moveRowUp_def)
  next
    case (Some i)
    from rowIndex_less [OF this] have "i \<noteq> 0 \<Longrightarrow> (i - 1) + 1 < length (tableRows s)" by simp
    with Some show ?thesis by (simp add: moveRowUp_def set_swapWithNext)
  qed
  show "set (tableRows (moveRowDown k s)) = set (tableRows s)"
    by (simp add: moveRowDown_def set_swapWithNext split: option.splits)
qed (simp_all add: moveRowUp_def moveRowDown_def split: option.splits)



lemma timersSound_simple [simp]:
  "timersSound (updateGlobalTimerDisplay s) = timersSound s"
  "timersSound (updateProgress s) = timersSound s"
  "timersSound (saveRoundsToStorage s) = timersSound s"
  "timersSound (scrollToNextUnchecked k s) = timersSound s"
  "timersSound (clearSavedRounds c s) = timersSound s"
  by (simp_all add: timersSound_def clearSavedRounds_def)

















section \<open>Handlers that change rows in place\<close>





lemma sameData_display [simp]:
  "sameData r (tickDisplay n r)"
  "sameData r (startDisplay n r)"
  "sameData r (resetDisplay r)"
  "sameData r (pauseDisplay r)"
  "sameData r (r\<lparr>timer_display_text := x\<rparr>)"
  "sameData r (r\<lparr>timer_display_classes := c\<rparr>)"
  "sameData r (r\<lparr>row_classes := rc\<rparr>)"
  "sameData r (r\<lparr>done_checkbox := b\<rparr>)"
  by (simp_all add: sameData_def tickDisplay_def startDisplay_def resetDisplay_def pauseDisplay_def)











section \<open>Remaining seconds\<close>

lemma getTimerSeconds_addedRow [simp]: "getTimerSeconds (addedRow d f n) = durationOf f"
  by (simp add: getTimerSeconds_def addedRow_def newRow_def durationOf_def orZero_def)













lemma numberToString_1 [simp]: "numberToString 1 = ''1''"
  by (simp add: numberToString_def natToString.simps digitChar_def)

lemma numberToString_2 [simp]: "numberToString 2 = ''2''"
  by (simp add: numberToString_def natToString.simps digitChar_def)



section \<open>The id counter\<close>

lemma nextRowId_frame [simp]:
  "nextRowId (timerFinished k s) = nextRowId s"
  "nextRowId (intervalCallback k s) = nextRowId s"
  "nextRowId (tick h s) = nextRowId s"
  "nextRowId (startTimer k s) = nextRowId s"
  "nextRowId (pauseTimer k s) = nextRowId s"
  "nextRowId (resetTimer k s) = nextRowId s"
  "nextRowId (toggleDone k c s) = nextRowId s"
  "nextRowId (clickDone k s) = nextRowId s"
  "nextRowId (deleteRow k c s) = nextRowId s"
  "nextRowId (moveRowUp k s) = nextRowId s"
  "nextRowId (moveRowDown k s) = nextRowId s"
  "nextRowId (clearSavedRounds c s) = nextRowId s"
proof -
  show f: "nextRowId (timerFinished k s) = nextRowId s" for k s
    by (simp add: timerFinished_def Let_def split: option.splits)
  show c: "nextRowId (intervalCallback k s) = nextRowId s" for k s
    by (simp add: intervalCallback_def Let_def f split: option.splits)
  show "nextRowId (tick h s) = nextRowId s"
    by (simp add: tick_def c split: option.splits)
  show "nextRowId (startTimer k s) = nextRowId s"
    by (simp add: startTimer_def Let_def split: option.splits)
  show p: "nextRowId (pauseTimer k s) = nextRowId s" for k s
    by (simp add: pauseTimer_def Let_def split: option.splits)
  show "nextRowId (resetTimer k s) = nextRowId s"
    by (simp add: resetTimer_def Let_def split: option.splits)
  show t: "nextRowId (toggleDone k c s) = nextRowId s" for k c s
    by (simp add: toggleDone_def Let_def p split: option.splits)
  show "nextRowId (clickDone k s) = nextRowId s"
    by (simp add: clickDone_def t split: option.splits)
  show "nextRowId (deleteRow k c s) = nextRowId s"
    by (cases c) (simp_all add: deleteRow_effect)
  show "nextRowId (moveRowUp k s) = nextRowId s" "nextRowId (moveRowDown k s) = nextRowId s"
    by (simp_all add: moveRow_effect)
  show "nextRowId (clearSavedRounds c s) = nextRowId s"
    by (simp add: clearSavedRounds_def)
qed


lemma rowIds_append [simp]: "rowIds (rs @ rs') = rowIds rs \<union> rowIds rs'"
  by (auto simp: rowIds_def)

lemma rowIds_addedRow [simp]: "rowIds [addedRow d f n] = {n}"
  by (auto simp: rowIds_def addedRow_def newRow_def)









lemma parseInt_rowOfRound [simp]: "parseInt (data_row_id (rowOfRound d r)) = id' r"
  by (simp add: rowOfRound_def Let_def split: option.splits)







subsection \<open>Row ids are never reused\<close>




end
